theory Spec2Isabelle
  imports Complex_Main "HOL-Library.Word" "HOL-Library.Signed_Division" "HOL-Library.Char_ord"
    "HOL-Library.List_Lexorder" "HOL-Library.AList"
begin

section \<open>Rule responses (engineapi)\<close>

text \<open>
  The engine reports every rule evaluation as a rule response: the rule's name, the
  kind of rule, a message and a status. The Go code passes pointers to responses and
  uses \<^verbatim>\<open>nil\<close> for "no response"; the model uses \<open>RuleResponse option\<close> there.
\<close>

datatype RuleStatus =
  RuleStatusPass | RuleStatusFail | RuleStatusWarn | RuleStatusError | RuleStatusSkip

datatype RuleType = Mutation | Validation | Generation | ImageVerify

record RuleResponse =
  Name :: string
  Type :: RuleType
  Message :: string
  Status :: RuleStatus

section \<open>The JSON-Patch patcher (pkg/engine/mutate/patch/patches.go)\<close>

text \<open>
  \<^verbatim>\<open>patchesJSON6902Handler\<close> holds the rule name, the patch text and the resource to
  patch. \<^verbatim>\<open>ConvertPatchesToJSON\<close> and \<^verbatim>\<open>ProcessPatchJSON6902\<close> live in files of the
  package that are not part of the excerpt, so \<open>Patch\<close> takes them as parameters: the
  converter returns either an error text or the operation list, the processor returns
  the response and the patched resource. The resource type \<open>'res\<close> stands for
  \<^verbatim>\<open>unstructured.Unstructured\<close>; \<open>emptyDoc\<close> is its zero value \<^verbatim>\<open>unstructured.Unstructured{}\<close>.
\<close>

record 'res patchesJSON6902Handler =
  ruleName :: string
  patches :: string
  patchedResource :: 'res

definition Patch ::
  "(string \<Rightarrow> string + 'ops) \<Rightarrow> (string \<Rightarrow> 'ops \<Rightarrow> 'res \<Rightarrow> RuleResponse \<times> 'res) \<Rightarrow> 'res \<Rightarrow>
   'res patchesJSON6902Handler \<Rightarrow> RuleResponse \<times> 'res" where
  "Patch ConvertPatchesToJSON ProcessPatchJSON6902 emptyDoc h =
     (case ConvertPatchesToJSON (patches h) of
        Inl err \<Rightarrow>
          (\<lparr>Name = ruleName h, Type = Mutation, Message = err, Status = RuleStatusFail\<rparr>, emptyDoc)
      | Inr patchesJSON6902 \<Rightarrow>
          ProcessPatchJSON6902 (ruleName h) patchesJSON6902 (patchedResource h))"

section \<open>Documents and Go outcomes\<close>

text \<open>
  A float64 is a finite value (held exactly, as a rational), an infinity or NaN. The two
  zeros of IEEE 754 compare equal in Go and are one value here.

  A document (\<^verbatim>\<open>interface{}\<close> holding decoded JSON, \<^verbatim>\<open>apiextensions.JSON\<close>,
  \<^verbatim>\<open>unstructured.Unstructured\<close>) is a tree; \<open>JNull\<close> is Go's \<^verbatim>\<open>nil\<close>. An object is an
  association list: the order of the list is the order in which Go happens to iterate
  the map.
\<close>

datatype float64 = Fin rat | PInf | NInf | NaN

datatype JSON =
  JNull | JBool bool | JNumber float64 | JString string | JArray "JSON list"
  | JObject "(string \<times> JSON) list"

text \<open>A Go call either returns or panics; a panic carries its text.\<close>

datatype 'a outcome = Panic string | Return 'a

section \<open>The validation handler (pkg/engine/handlers/validation)\<close>

subsection \<open>Policy types used by the validator\<close>

text \<open>
  \<^verbatim>\<open>kyvernov1.ForEachValidation\<close>: the list expression, the element-scope flag, the
  context entries, the preconditions, the pattern, the any-pattern, the deny conditions
  and the nested for-each declarations. The nested declarations are stored as raw
  JSON and decoded by \<^verbatim>\<open>api.DeserializeJSONArray\<close> when a nested validator is built:
  \<open>NestedNil\<close> is the absent field, \<open>NestedInvalid e\<close> raw bytes whose decoding fails with
  error \<open>e\<close>, \<open>NestedList\<close> raw bytes that decode to the given declarations.
  \<^verbatim>\<open>GetPattern\<close> and \<^verbatim>\<open>GetAnyPattern\<close> decode raw JSON as well; the model holds the decoded
  documents.
\<close>

datatype ForEachValidation = ForEachValidation
    (List: string) (ElementScope: "bool option") (Context: "JSON list")
    (AnyAllConditions: JSON) (GetPattern: JSON) (GetAnyPattern: JSON) (Deny: "JSON option")
    (ForEachValidationRaw: NestedForEach)
and NestedForEach =
    NestedNil | NestedInvalid string | NestedList "ForEachValidation list"

record Validation =
  ValidationMessage :: string
  ValidationPattern :: JSON
  ValidationAnyPattern :: JSON
  ValidationDeny :: "JSON option"
  ValidationForEach :: "ForEachValidation list option"

record Rule =
  RuleName :: string
  RuleValidation :: Validation

text \<open>
  The error of \<^verbatim>\<open>validate.MatchPattern\<close>: a \<^verbatim>\<open>*validate.PatternError\<close> with the text of
  its \<^verbatim>\<open>Error()\<close>, the failing path and the skip flag, or an error of another type.
\<close>

datatype MatchError = PatternError (Err: string) (Path: string) (Skip: bool) | OtherError string

fun ErrorText :: "MatchError \<Rightarrow> string" where
  "ErrorText (PatternError e p s) = e"
| "ErrorText (OtherError e) = e"

subsection \<open>Collaborators\<close>

text \<open>
  The validator calls into packages that are outside the excerpt. The model takes
  them as one record of functions over the policy context \<open>'c\<close> (the policy context
  with its JSON context). A call that mutates the context returns the new context.
  \<^item> \<open>contextLoader\<close>: \<^verbatim>\<open>engineapi.EngineContextLoader\<close>;
  \<^item> \<open>CheckPreconditions\<close>, \<open>CheckDenyPreconditions\<close>: \<^verbatim>\<open>internal\<close>;
  \<^item> \<open>SubstituteAll\<close>: \<^verbatim>\<open>variables.SubstituteAll\<close>;
  \<^item> \<open>MatchPattern\<close>: \<^verbatim>\<open>validate.MatchPattern\<close>;
  \<^item> \<open>EvaluateList\<close>, \<open>AddElementToContext\<close>, \<open>IsEmptyUnstructured\<close>, \<open>IsDeleteRequest\<close>:
    \<^verbatim>\<open>engineutils\<close>; \<open>AddElementToContext\<close> receives the reset copy of the context, the
    element, its index, the nesting depth and the element-scope flag;
  \<^item> \<open>Element\<close>, \<open>NewResource\<close>: \<^verbatim>\<open>engineapi.PolicyContext\<close>;
  \<^item> \<open>ToMap\<close>: \<^verbatim>\<open>datautils.ToMap\<close>.
\<close>

record 'c env =
  contextLoader :: "JSON list \<Rightarrow> 'c \<Rightarrow> string + 'c"
  CheckPreconditions :: "'c \<Rightarrow> JSON \<Rightarrow> string + bool"
  CheckDenyPreconditions :: "'c \<Rightarrow> JSON \<Rightarrow> string + bool"
  SubstituteAll :: "'c \<Rightarrow> JSON \<Rightarrow> string + JSON"
  MatchPattern :: "JSON \<Rightarrow> JSON \<Rightarrow> MatchError option"
  EvaluateList :: "string \<Rightarrow> 'c \<Rightarrow> string + JSON list"
  AddElementToContext :: "'c \<Rightarrow> JSON \<Rightarrow> nat \<Rightarrow> nat \<Rightarrow> bool option \<Rightarrow> string + 'c"
  IsEmptyUnstructured :: "JSON \<Rightarrow> bool"
  IsDeleteRequest :: "'c \<Rightarrow> bool"
  Element :: "'c \<Rightarrow> JSON"
  NewResource :: "'c \<Rightarrow> JSON"
  ToMap :: "JSON \<Rightarrow> string + JSON"

subsection \<open>Response constructors (pkg/engine/internal)\<close>

text \<open>
  Modelled from the spec: the constructors of \<^verbatim>\<open>internal\<close> are not in the excerpt. A rule
  response is the rule name, the rule type, a message and a status (section 3);
  \<open>RulePass\<close>, \<open>RuleSkip\<close> and \<open>RuleError\<close> fix the status, and \<open>RuleError\<close> puts the
  underlying cause after the diagnostic text (section 7).
\<close>

definition RuleResponse :: "Rule \<Rightarrow> RuleType \<Rightarrow> string \<Rightarrow> RuleStatus \<Rightarrow> RuleResponse" where
  "RuleResponse r t msg st = \<lparr>Name = RuleName r, Type = t, Message = msg, Status = st\<rparr>"

definition RulePass :: "Rule \<Rightarrow> RuleType \<Rightarrow> string \<Rightarrow> RuleResponse" where
  "RulePass r t msg = RuleResponse r t msg RuleStatusPass"

definition RuleSkip :: "Rule \<Rightarrow> RuleType \<Rightarrow> string \<Rightarrow> RuleResponse" where
  "RuleSkip r t msg = RuleResponse r t msg RuleStatusSkip"

definition RuleError :: "Rule \<Rightarrow> RuleType \<Rightarrow> string \<Rightarrow> string \<Rightarrow> RuleResponse" where
  "RuleError r t msg err = RuleResponse r t (msg @ '': '' @ err) RuleStatusError"

text \<open>
  Modelled from the spec: \<^verbatim>\<open>handlers.RuleResponses\<close> is not in the excerpt; it turns the
  response pointers it is given into the handler's response list, leaving out \<^verbatim>\<open>nil\<close>.
\<close>

definition RuleResponses :: "RuleResponse option list \<Rightarrow> RuleResponse list" where
  "RuleResponses rrs = concat (map (\<lambda>rr. case rr of None \<Rightarrow> [] | Some r \<Rightarrow> [r]) rrs)"

subsection \<open>Strings\<close>

text \<open>\<^verbatim>\<open>%d\<close> of a non-negative index, \<^verbatim>\<open>strings.Join\<close> and \<^verbatim>\<open>strings.HasSuffix\<close>.\<close>

fun itoa :: "nat \<Rightarrow> string" where
  "itoa n = (if n < 10 then [''0123456789'' ! n] else itoa (n div 10) @ [''0123456789'' ! (n mod 10)])"

declare itoa.simps [simp del]

fun Join :: "string list \<Rightarrow> string \<Rightarrow> string" where
  "Join [] sep = ''''"
| "Join [x] sep = x"
| "Join (x # y # ys) sep = x @ sep @ Join (y # ys) sep"

definition HasSuffix :: "string \<Rightarrow> string \<Rightarrow> bool" where
  "HasSuffix s suf = (length suf \<le> length s \<and> drop (length s - length suf) s = suf)"

subsection \<open>The validator\<close>

text \<open>
  The struct \<^verbatim>\<open>validator\<close>. The logger is left out (logging has no effect on results)
  and the context loader is a field of the collaborators. A \<^verbatim>\<open>nil\<close> pattern,
  any-pattern or condition document is \<open>JNull\<close>; a \<^verbatim>\<open>nil\<close> deny pointer or for-each slice
  is \<open>None\<close>.
\<close>

record 'c validator =
  rule :: Rule
  policyContext :: 'c
  contextEntries :: "JSON list"
  anyAllConditions :: JSON
  pattern :: JSON
  anyPattern :: JSON
  deny :: "JSON option"
  forEach :: "ForEachValidation list option"
  nesting :: nat

definition newValidator :: "'c \<Rightarrow> Rule \<Rightarrow> 'c validator" where
  "newValidator ctx r =
     \<lparr>rule = r, policyContext = ctx, contextEntries = [], anyAllConditions = JNull,
      pattern = ValidationPattern (RuleValidation r),
      anyPattern = ValidationAnyPattern (RuleValidation r),
      deny = ValidationDeny (RuleValidation r),
      forEach = ValidationForEach (RuleValidation r),
      nesting = 0\<rparr>"

definition newForEachValidator ::
  "'c env \<Rightarrow> ForEachValidation \<Rightarrow> nat \<Rightarrow> Rule \<Rightarrow> 'c \<Rightarrow> string + 'c validator" where
  "newForEachValidator E foreach nest r ctx =
     (case ToMap E (AnyAllConditions foreach) of
        Inl err \<Rightarrow>
          Inl (''failed to convert ruleCopy.Validation.ForEachValidation.AnyAllConditions: '' @ err)
      | Inr conds \<Rightarrow>
          (case ForEachValidationRaw foreach of
             NestedInvalid err \<Rightarrow>
               Inl (''failed to convert ruleCopy.Validation.ForEachValidation.AnyAllConditions: '' @ err)
           | NestedNil \<Rightarrow>
               Inr \<lparr>rule = r, policyContext = ctx, contextEntries = Context foreach,
                    anyAllConditions = conds, pattern = GetPattern foreach,
                    anyPattern = GetAnyPattern foreach, deny = Deny foreach,
                    forEach = None, nesting = nest\<rparr>
           | NestedList nestedForEach \<Rightarrow>
               Inr \<lparr>rule = r, policyContext = ctx, contextEntries = Context foreach,
                    anyAllConditions = conds, pattern = GetPattern foreach,
                    anyPattern = GetAnyPattern foreach, deny = Deny foreach,
                    forEach = Some nestedForEach, nesting = nest\<rparr>))"

definition getDenyMessage :: "'c env \<Rightarrow> 'c validator \<Rightarrow> bool \<Rightarrow> string" where
  "getDenyMessage E v dn =
     (if \<not> dn then ''validation rule '' @ [CHR 0x27] @ RuleName (rule v) @ [CHR 0x27] @ '' passed.''
      else if ValidationMessage (RuleValidation (rule v)) = ''''
        then ''validation error: rule '' @ RuleName (rule v) @ '' failed''
      else (case SubstituteAll E (policyContext v) (JString (ValidationMessage (RuleValidation (rule v)))) of
              Inl err \<Rightarrow> ValidationMessage (RuleValidation (rule v))
            | Inr (JString typed) \<Rightarrow> typed
            | Inr _ \<Rightarrow>
                ''the produced message didn'' @ [CHR 0x27] @ ''t resolve to a string, check your policy definition.''))"

text \<open>\<^verbatim>\<open>validateDeny\<close> dereferences \<^verbatim>\<open>v.deny\<close>: on a \<^verbatim>\<open>nil\<close> pointer the call panics.\<close>

definition validateDeny :: "'c env \<Rightarrow> 'c validator \<Rightarrow> RuleResponse option outcome" where
  "validateDeny E v =
     (case deny v of
        None \<Rightarrow> Panic ''invalid memory address or nil pointer dereference''
      | Some conds \<Rightarrow>
          (case CheckDenyPreconditions E (policyContext v) conds of
             Inl err \<Rightarrow>
               Return (Some (RuleError (rule v) Validation ''failed to check deny preconditions'' err))
           | Inr dn \<Rightarrow>
               if dn then Return (Some (RuleResponse (rule v) Validation (getDenyMessage E v dn) RuleStatusFail))
               else Return (Some (RulePass (rule v) Validation (getDenyMessage E v dn)))))"

text \<open>
  \<^verbatim>\<open>buildErrorMessage\<close> asserts that the substituted message is a string
  (\<^verbatim>\<open>msgRaw.(string)\<close>): a substitution that yields another document panics.
\<close>

definition buildErrorMessage :: "'c env \<Rightarrow> 'c validator \<Rightarrow> string \<Rightarrow> string \<Rightarrow> string outcome" where
  "buildErrorMessage E v err path =
     (if ValidationMessage (RuleValidation (rule v)) = '''' then
        (if path \<noteq> ''''
         then Return (''validation error: rule '' @ RuleName (rule v) @ '' failed at path '' @ path)
         else Return (''validation error: rule '' @ RuleName (rule v) @ '' execution error: '' @ err))
      else
        (case SubstituteAll E (policyContext v) (JString (ValidationMessage (RuleValidation (rule v)))) of
           Inl sErr \<Rightarrow>
             Return (''validation error: variables substitution error in rule '' @ RuleName (rule v)
                     @ '' execution error: '' @ err)
         | Inr (JString msg0) \<Rightarrow>
             (if path \<noteq> ''''
              then Return (''validation error: '' @ (if \<not> HasSuffix msg0 ''.'' then msg0 @ ''.'' else msg0)
                     @ '' rule '' @ RuleName (rule v) @ '' failed at path '' @ path)
              else Return (''validation error: '' @ (if \<not> HasSuffix msg0 ''.'' then msg0 @ ''.'' else msg0)
                     @ '' rule '' @ RuleName (rule v) @ '' execution error: '' @ err))
         | Inr _ \<Rightarrow> Panic ''interface conversion: interface {} is not string''))"

definition buildAnyPatternErrorMessage :: "Rule \<Rightarrow> string list \<Rightarrow> string" where
  "buildAnyPatternErrorMessage r errors =
     (if ValidationMessage (RuleValidation r) = '''' then ''validation error: '' @ Join errors '' ''
      else if HasSuffix (ValidationMessage (RuleValidation r)) ''.''
        then ''validation error: '' @ ValidationMessage (RuleValidation r) @ '' '' @ Join errors '' ''
      else ''validation error: '' @ ValidationMessage (RuleValidation r) @ ''. '' @ Join errors '' '')"

text \<open>
  \<^verbatim>\<open>deserializeAnyPattern\<close> returns the \<^verbatim>\<open>nil\<close> slice for \<^verbatim>\<open>nil\<close>; otherwise it marshals the
  document with \<^verbatim>\<open>json.Marshal\<close> and unmarshals the bytes into a slice of documents.

  \<open>marshalError\<close> is the error of \<^verbatim>\<open>json.Marshal\<close> on a document: a number that is not
  finite is an unsupported value, and the encoder reports the first one it meets,
  walking arrays in order and objects in the order of their sorted keys. A document
  without such a number is encoded; its strings are taken to be valid UTF-8, so that
  decoding gives the document back.

  \<^verbatim>\<open>json.Unmarshal\<close> into a slice accepts an array and fails on any other document with
  an error that names the kind of JSON value it met.
\<close>

fun firstSome :: "'a option list \<Rightarrow> 'a option" where
  "firstSome [] = None"
| "firstSome (None # xs) = firstSome xs"
| "firstSome (Some x # xs) = Some x"

function marshalError :: "JSON \<Rightarrow> string option" where
  "marshalError JNull = None"
| "marshalError (JBool b) = None"
| "marshalError (JString s) = None"
| "marshalError (JNumber (Fin r)) = None"
| "marshalError (JNumber PInf) = Some ''json: unsupported value: +Inf''"
| "marshalError (JNumber NInf) = Some ''json: unsupported value: -Inf''"
| "marshalError (JNumber NaN) = Some ''json: unsupported value: NaN''"
| "marshalError (JArray xs) = firstSome (map marshalError xs)"
| "marshalError (JObject kvs) =
     firstSome (map (\<lambda>kv. marshalError (snd kv)) (sort_key fst kvs))"
  by pat_completeness auto
termination
proof (relation "measure size", goal_cases)
  case 1
  show ?case by simp
next
  case (2 xs x)
  then show ?case by (simp add: size_list_estimation' less_Suc_eq_le)
next
  case (3 kvs kv)
  then have "kv \<in> set kvs" by simp
  then have "size_prod (\<lambda>_. 0) size kv \<le> size_list (size_prod (\<lambda>_. 0) size) kvs"
    by (simp add: size_list_estimation')
  then show ?case by (cases kv) simp
qed

definition deserializeAnyPattern :: "JSON \<Rightarrow> string + JSON list" where
  "deserializeAnyPattern ap =
     (if ap = JNull then Inr []
      else (case marshalError ap of
        Some err \<Rightarrow> Inl err
      | None \<Rightarrow>
          (case ap of
             JArray res \<Rightarrow> Inr res
           | JNull \<Rightarrow> Inr []
           | JBool b \<Rightarrow> Inl ''json: cannot unmarshal bool into Go value of type []interface {}''
           | JNumber x \<Rightarrow> Inl ''json: cannot unmarshal number into Go value of type []interface {}''
           | JString s \<Rightarrow> Inl ''json: cannot unmarshal string into Go value of type []interface {}''
           | JObject kvs \<Rightarrow>
               Inl ''json: cannot unmarshal object into Go value of type []interface {}'')))"

text \<open>
  The loop of \<^verbatim>\<open>validatePatterns\<close> over the candidates of an any-pattern, from candidate
  \<open>idx\<close> on: \<open>Inl\<close> is the response of the early return, \<open>Inr\<close> the two error lists
  (failed, skipped) when the loop runs to its end.
\<close>

fun anyPatternsLoop ::
  "'c env \<Rightarrow> Rule \<Rightarrow> JSON \<Rightarrow> nat \<Rightarrow> JSON list \<Rightarrow> string list \<Rightarrow> string list \<Rightarrow>
   RuleResponse + (string list \<times> string list)" where
  "anyPatternsLoop E r resource idx [] failedAnyPatternsErrors skippedAnyPatternErrors =
     Inr (failedAnyPatternsErrors, skippedAnyPatternErrors)"
| "anyPatternsLoop E r resource idx (p # ps) failedAnyPatternsErrors skippedAnyPatternErrors =
     (case MatchPattern E resource p of
        None \<Rightarrow>
          Inl (RulePass r Validation
                 (''validation rule '' @ [CHR 0x27] @ RuleName r @ [CHR 0x27] @ '' anyPattern['' @ itoa idx
                  @ ''] passed.''))
      | Some (PatternError e path skip) \<Rightarrow>
          (if skip then
             anyPatternsLoop E r resource (idx + 1) ps failedAnyPatternsErrors
               (skippedAnyPatternErrors @ [''rule '' @ RuleName r @ ''['' @ itoa idx @ ''] skipped: '' @ e])
           else if path = '''' then
             anyPatternsLoop E r resource (idx + 1) ps
               (failedAnyPatternsErrors @ [''rule '' @ RuleName r @ ''['' @ itoa idx @ ''] failed: '' @ e])
               skippedAnyPatternErrors
           else
             anyPatternsLoop E r resource (idx + 1) ps
               (failedAnyPatternsErrors
                @ [''rule '' @ RuleName r @ ''['' @ itoa idx @ ''] failed at path '' @ path])
               skippedAnyPatternErrors)
      | Some (OtherError e) \<Rightarrow>
          anyPatternsLoop E r resource (idx + 1) ps failedAnyPatternsErrors skippedAnyPatternErrors)"

text \<open>
  \<^verbatim>\<open>validatePatterns\<close>. In the pattern branch an error that is not a pattern error
  reads \<^verbatim>\<open>pe.Path\<close> through the \<^verbatim>\<open>nil\<close> pointer \<^verbatim>\<open>pe\<close> and panics.
\<close>

definition validatePatterns :: "'c env \<Rightarrow> 'c validator \<Rightarrow> JSON \<Rightarrow> RuleResponse option outcome" where
  "validatePatterns E v resource =
     (if pattern v \<noteq> JNull then
        (case MatchPattern E resource (pattern v) of
           Some (PatternError e path skip) \<Rightarrow>
             (if skip then Return (Some (RuleSkip (rule v) Validation e))
              else if path = '''' then
                (case buildErrorMessage E v e '''' of
                   Panic p \<Rightarrow> Panic p
                 | Return msg \<Rightarrow> Return (Some (RuleResponse (rule v) Validation msg RuleStatusError)))
              else
                (case buildErrorMessage E v e path of
                   Panic p \<Rightarrow> Panic p
                 | Return msg \<Rightarrow> Return (Some (RuleResponse (rule v) Validation msg RuleStatusFail))))
         | Some (OtherError e) \<Rightarrow> Panic ''invalid memory address or nil pointer dereference''
         | None \<Rightarrow>
             Return (Some (RulePass (rule v) Validation
               (''validation rule '' @ [CHR 0x27] @ RuleName (rule v) @ [CHR 0x27] @ '' passed.''))))
      else if anyPattern v \<noteq> JNull then
        (case deserializeAnyPattern (anyPattern v) of
           Inl err \<Rightarrow>
             Return (Some (RuleError (rule v) Validation
               ''failed to deserialize anyPattern, expected type array'' err))
         | Inr anyPatterns \<Rightarrow>
             (case anyPatternsLoop E (rule v) resource 0 anyPatterns [] [] of
                Inl resp \<Rightarrow> Return (Some resp)
              | Inr (failedAnyPatternsErrors, skippedAnyPatternErrors) \<Rightarrow>
                  if length skippedAnyPatternErrors > 0 \<and> length failedAnyPatternsErrors = 0 then
                    Return (Some (RuleSkip (rule v) Validation (Join skippedAnyPatternErrors '' '')))
                  else if length failedAnyPatternsErrors > 0 then
                    Return (Some (RuleResponse (rule v) Validation
                      (buildAnyPatternErrorMessage (rule v) failedAnyPatternsErrors) RuleStatusFail))
                  else
                    Return (Some (RulePass (rule v) Validation
                      (ValidationMessage (RuleValidation (rule v)))))))
      else Return (Some (RulePass (rule v) Validation (ValidationMessage (RuleValidation (rule v))))))"

definition validateResourceWithRule :: "'c env \<Rightarrow> 'c validator \<Rightarrow> RuleResponse option outcome" where
  "validateResourceWithRule E v =
     (if \<not> IsEmptyUnstructured E (Element E (policyContext v))
        then validatePatterns E v (Element E (policyContext v))
      else if IsDeleteRequest E (policyContext v) then Return None
      else validatePatterns E v (NewResource E (policyContext v)))"

text \<open>
  \<^verbatim>\<open>substitutePatterns\<close> replaces the validator's pattern (or any-pattern) by its
  substitution; the model returns the updated validator. The assertion
  \<^verbatim>\<open>i.(apiextensions.JSON)\<close> panics when the substitution yields \<^verbatim>\<open>nil\<close>.
\<close>

definition substitutePatterns :: "'c env \<Rightarrow> 'c validator \<Rightarrow> (string + 'c validator) outcome" where
  "substitutePatterns E v =
     (if pattern v \<noteq> JNull then
        (case SubstituteAll E (policyContext v) (pattern v) of
           Inl err \<Rightarrow> Return (Inl err)
         | Inr JNull \<Rightarrow> Panic ''interface conversion: interface is nil, not apiextensions.JSON''
         | Inr i \<Rightarrow> Return (Inr (v\<lparr>pattern := i\<rparr>)))
      else if anyPattern v \<noteq> JNull then
        (case SubstituteAll E (policyContext v) (anyPattern v) of
           Inl err \<Rightarrow> Return (Inl err)
         | Inr JNull \<Rightarrow> Panic ''interface conversion: interface is nil, not apiextensions.JSON''
         | Inr i \<Rightarrow> Return (Inr (v\<lparr>anyPattern := i\<rparr>)))
      else Return (Inr v))"

subsection \<open>validate, validateForEach and validateElements\<close>

text \<open>
  The three methods call each other: \<^verbatim>\<open>validate\<close> delegates a for-each rule to
  \<^verbatim>\<open>validateForEach\<close>, which runs \<^verbatim>\<open>validateElements\<close> on every list, which builds a
  nested validator per element and calls \<^verbatim>\<open>validate\<close> on it. The two \<^verbatim>\<open>for\<close> loops are
  the functions \<open>validateForEachLoop\<close> (the remaining declarations and the running
  \<^verbatim>\<open>applyCount\<close>) and \<open>validateElementsLoop\<close> (the length of the list, the index of the
  next element, the remaining elements and the running \<^verbatim>\<open>applyCount\<close>).

  \<^verbatim>\<open>validateElements\<close> takes a checkpoint of the JSON context, resets the context to it
  before each element and restores it on return, so every element is evaluated in
  the context the method was entered with: the model hands \<open>policyContext v\<close> to
  \<open>AddElementToContext\<close> for each element. A panic of a nested call propagates.
\<close>

function (sequential)
  validate :: "'c env \<Rightarrow> 'c validator \<Rightarrow> RuleResponse option outcome"
  and validateForEach :: "'c env \<Rightarrow> 'c validator \<Rightarrow> RuleResponse option outcome"
  and validateForEachLoop ::
    "'c env \<Rightarrow> 'c validator \<Rightarrow> ForEachValidation list \<Rightarrow> nat \<Rightarrow> RuleResponse option outcome"
  and validateElements ::
    "'c env \<Rightarrow> 'c validator \<Rightarrow> ForEachValidation \<Rightarrow> JSON list \<Rightarrow> bool option \<Rightarrow>
     (RuleResponse \<times> nat) outcome"
  and validateElementsLoop ::
    "'c env \<Rightarrow> 'c validator \<Rightarrow> ForEachValidation \<Rightarrow> bool option \<Rightarrow> nat \<Rightarrow> nat \<Rightarrow> JSON list \<Rightarrow> nat \<Rightarrow>
     (RuleResponse \<times> nat) outcome"
where
  "validate E v =
     (case contextLoader E (contextEntries v) (policyContext v) of
        Inl err \<Rightarrow> Return (Some (RuleError (rule v) Validation ''failed to load context'' err))
      | Inr ctx \<Rightarrow>
          (case CheckPreconditions E ctx (anyAllConditions v) of
             Inl err \<Rightarrow>
               Return (Some (RuleError (rule v) Validation ''failed to evaluate preconditions'' err))
           | Inr preconditionsPassed \<Rightarrow>
               if \<not> preconditionsPassed
                 then Return (Some (RuleSkip (rule v) Validation ''preconditions not met''))
               else if deny v \<noteq> None then validateDeny E (v\<lparr>policyContext := ctx\<rparr>)
               else if pattern v \<noteq> JNull \<or> anyPattern v \<noteq> JNull then
                 (case substitutePatterns E (v\<lparr>policyContext := ctx\<rparr>) of
                    Panic p \<Rightarrow> Panic p
                  | Return (Inl err) \<Rightarrow>
                      Return (Some (RuleError (rule v) Validation ''variable substitution failed'' err))
                  | Return (Inr v') \<Rightarrow> validateResourceWithRule E v')
               else if forEach v \<noteq> None then validateForEach E (v\<lparr>policyContext := ctx\<rparr>)
               else Return None))"
| "validateForEach E v =
     validateForEachLoop E v (case forEach v of None \<Rightarrow> [] | Some fes \<Rightarrow> fes) 0"
| "validateForEachLoop E v [] applyCount =
     (if applyCount = 0 then
        (if forEach v = None then Return None
         else Return (Some (RuleSkip (rule v) Validation ''rule skipped'')))
      else Return (Some (RulePass (rule v) Validation ''rule passed'')))"
| "validateForEachLoop E v (foreach # rest) applyCount =
     (case EvaluateList E (List foreach) (policyContext v) of
        Inl err \<Rightarrow> validateForEachLoop E v rest applyCount
      | Inr elements \<Rightarrow>
          (case validateElements E v foreach elements (ElementScope foreach) of
             Panic p \<Rightarrow> Panic p
           | Return (resp, count) \<Rightarrow>
               if Status resp \<noteq> RuleStatusPass then Return (Some resp)
               else validateForEachLoop E v rest (applyCount + count)))"
| "validateElements E v foreach elements elementScope =
     validateElementsLoop E v foreach elementScope (length elements) 0 elements 0"
| "validateElementsLoop E v foreach elementScope n index [] applyCount =
     Return (RulePass (rule v) Validation '''', applyCount)"
| "validateElementsLoop E v foreach elementScope n index (element # rest) applyCount =
     (if element = JNull then validateElementsLoop E v foreach elementScope n (index + 1) rest applyCount
      else
        (case AddElementToContext E (policyContext v) element index (nesting v) elementScope of
           Inl err \<Rightarrow>
             Return (RuleError (rule v) Validation ''failed to process foreach'' err, applyCount)
         | Inr policyContext' \<Rightarrow>
             (case newForEachValidator E foreach (nesting v + 1) (rule v) policyContext' of
                Inl err \<Rightarrow>
                  Return (RuleError (rule v) Validation ''failed to create foreach validator'' err,
                          applyCount)
              | Inr foreachValidator \<Rightarrow>
                  (case validate E foreachValidator of
                     Panic p \<Rightarrow> Panic p
                   | Return None \<Rightarrow>
                       validateElementsLoop E v foreach elementScope n (index + 1) rest applyCount
                   | Return (Some r) \<Rightarrow>
                       if Status r = RuleStatusSkip then
                         validateElementsLoop E v foreach elementScope n (index + 1) rest applyCount
                       else if Status r \<noteq> RuleStatusPass then
                         (if Status r = RuleStatusError then
                            (if int index < int n - 1 then
                               validateElementsLoop E v foreach elementScope n (index + 1) rest applyCount
                             else
                               Return (RuleResponse (rule v) Validation
                                         (''validation failure: '' @ Message r) (Status r), applyCount))
                          else
                            Return (RuleResponse (rule v) Validation
                                      (''validation failure: '' @ Message r) (Status r), applyCount))
                       else
                         validateElementsLoop E v foreach elementScope n (index + 1) rest
                           (applyCount + 1)))))"
  by pat_completeness auto

termination validate
proof (relation "inv_image (less_than <*lex*> less_than <*lex*> less_than)
     (\<lambda>x. case x of
        Inl (Inl (E, v)) \<Rightarrow>
          (case forEach v of None \<Rightarrow> 0 | Some fes \<Rightarrow> size_list size fes, 3::nat, 0::nat)
      | Inl (Inr (E, v)) \<Rightarrow>
          (case forEach v of None \<Rightarrow> 0 | Some fes \<Rightarrow> size_list size fes, 2, 0)
      | Inr (Inl (E, v, fes, a)) \<Rightarrow> (size_list size fes, 1, length fes)
      | Inr (Inr (Inl (E, v, fe, els, sc))) \<Rightarrow> (size fe, 1, 0)
      | Inr (Inr (Inr (E, v, fe, sc, n, i, els, a))) \<Rightarrow> (size fe, 0, length els))", goal_cases)
  case 1
  show ?case by (intro wf_inv_image wf_lex_prod wf_less_than)
next
  case (3 E v)
  then show ?case by (simp split: option.split)
next
  case (9 E v foreach elementScope n index element rest applyCount b ba)
  then show ?case
    by (cases foreach) (auto simp: newForEachValidator_def split: sum.splits NestedForEach.splits)
qed simp_all

declare validate.simps [simp del] validateForEach.simps [simp del] validateElements.simps [simp del]

text \<open>
  \<^verbatim>\<open>validateResourceHandler.Process\<close> returns the resource unchanged and the responses
  of a validator made from the rule.
\<close>

definition Process :: "'c env \<Rightarrow> 'c \<Rightarrow> JSON \<Rightarrow> Rule \<Rightarrow> (JSON \<times> RuleResponse list) outcome" where
  "Process E policyContext0 resource r =
     (case validate E (newValidator policyContext0 r) of
        Panic p \<Rightarrow> Panic p
      | Return resp \<Rightarrow> Return (resource, RuleResponses [resp]))"

subsection \<open>A small environment for running the validator\<close>

text \<open>
  To run the validator on concrete rules the collaborators need values. In
  \<open>exampleEnv\<close> the policy context is the document under validation: adding an element
  to the context makes the element that document, loading context entries and
  substituting variables change nothing, a list expression names a field of the
  document, a condition document \<open>JBool b\<close> evaluates to \<open>b\<close> and a condition document
  \<open>JString e\<close> fails with error \<open>e\<close>. A pattern matches a resource equal to it; against
  any other resource the pattern \<open>JString ''?()''\<close> is skipped, a number pattern fails
  without a path and every other pattern fails at path \<open>/\<close>.
\<close>

definition exampleEnv :: "JSON env" where
  "exampleEnv =
     \<lparr>contextLoader = (\<lambda>entries ctx. Inr ctx),
      CheckPreconditions = (\<lambda>ctx conds. case conds of JBool b \<Rightarrow> Inr b | JString e \<Rightarrow> Inl e | _ \<Rightarrow> Inr True),
      CheckDenyPreconditions = (\<lambda>ctx conds. case conds of JBool b \<Rightarrow> Inr b | JString e \<Rightarrow> Inl e | _ \<Rightarrow> Inr False),
      SubstituteAll = (\<lambda>ctx doc. Inr doc),
      MatchPattern = (\<lambda>resource pat.
         if resource = pat then None
         else if pat = JString ''?()'' then Some (PatternError ''anchor not present'' '''' True)
         else (case pat of
                 JNumber x \<Rightarrow> Some (PatternError ''type mismatch'' '''' False)
               | _ \<Rightarrow> Some (PatternError ''values differ'' ''/'' False))),
      EvaluateList = (\<lambda>expr ctx.
         case ctx of
           JObject kvs \<Rightarrow> (case map_of kvs expr of Some (JArray xs) \<Rightarrow> Inr xs | _ \<Rightarrow> Inl ''not a list'')
         | _ \<Rightarrow> Inl ''not an object''),
      AddElementToContext = (\<lambda>ctx element index nest scope. Inr element),
      IsEmptyUnstructured = (\<lambda>doc. doc = JNull),
      IsDeleteRequest = (\<lambda>ctx. False),
      Element = (\<lambda>ctx. ctx),
      NewResource = (\<lambda>ctx. ctx),
      ToMap = (\<lambda>doc. Inr doc)\<rparr>"

subsection \<open>Counting applied elements\<close>

text \<open>
  For one for-each declaration of a validator: \<open>appliedCount\<close> is the count that
  \<^verbatim>\<open>validateForEach\<close> receives from \<^verbatim>\<open>validateElements\<close> and adds to its total (nothing
  when the list expression fails to evaluate), and \<open>listPasses\<close> says that the
  declaration does not end the iteration, that is, its list fails to evaluate or
  \<^verbatim>\<open>validateElements\<close> returns status Pass for it.
\<close>

definition appliedCount :: "'c env \<Rightarrow> 'c validator \<Rightarrow> ForEachValidation \<Rightarrow> nat" where
  "appliedCount E v foreach =
     (case EvaluateList E (List foreach) (policyContext v) of
        Inl err \<Rightarrow> 0
      | Inr elements \<Rightarrow>
          (case validateElements E v foreach elements (ElementScope foreach) of
             Panic p \<Rightarrow> 0
           | Return (resp, count) \<Rightarrow> count))"

definition listPasses :: "'c env \<Rightarrow> 'c validator \<Rightarrow> ForEachValidation \<Rightarrow> bool" where
  "listPasses E v foreach =
     (case EvaluateList E (List foreach) (policyContext v) of
        Inl err \<Rightarrow> True
      | Inr elements \<Rightarrow>
          (case validateElements E v foreach elements (ElementScope foreach) of
             Panic p \<Rightarrow> False
           | Return (resp, count) \<Rightarrow> Status resp = RuleStatusPass))"

text \<open>
  An element is skipped by \<^verbatim>\<open>validateElements\<close> when it is \<^verbatim>\<open>nil\<close>, or when its nested
  evaluation returns no response or a response with status Skip.
\<close>

definition elementSkipped ::
  "'c env \<Rightarrow> 'c validator \<Rightarrow> ForEachValidation \<Rightarrow> bool option \<Rightarrow> nat \<Rightarrow> JSON \<Rightarrow> bool" where
  "elementSkipped E v foreach elementScope index element =
     (if element = JNull then True
      else
        (case AddElementToContext E (policyContext v) element index (nesting v) elementScope of
           Inl err \<Rightarrow> False
         | Inr policyContext' \<Rightarrow>
             (case newForEachValidator E foreach (nesting v + 1) (rule v) policyContext' of
                Inl err \<Rightarrow> False
              | Inr foreachValidator \<Rightarrow>
                  (case validate E foreachValidator of
                     Panic p \<Rightarrow> False
                   | Return None \<Rightarrow> True
                   | Return (Some r) \<Rightarrow> Status r = RuleStatusSkip))))"

subsection \<open>A for-each rule to run\<close>

text \<open>
  The rule \<open>exampleRule\<close> has one for-each declaration over the field \<open>items\<close> of the
  resource, with the pattern \<open>1\<close>: in \<open>exampleEnv\<close> an element equal to \<open>1\<close> passes and
  any other non-null element makes the nested validator answer with status Error
  (a pattern error without a path).
\<close>

definition exampleForEach :: ForEachValidation where
  "exampleForEach = ForEachValidation ''items'' None [] JNull (JNumber (Fin 1)) JNull None NestedNil"

definition exampleRule :: Rule where
  "exampleRule =
     \<lparr>RuleName = ''check-items'',
      RuleValidation = \<lparr>ValidationMessage = '''', ValidationPattern = JNull,
        ValidationAnyPattern = JNull, ValidationDeny = None,
        ValidationForEach = Some [exampleForEach]\<rparr>\<rparr>"

definition exampleResource :: "JSON list \<Rightarrow> JSON" where
  "exampleResource items = JObject [(''items'', JArray items)]"

subsection \<open>What the any-pattern loop reports\<close>

text \<open>
  The verdict of one candidate against a resource: it matches, it is skip-worthy (a
  pattern error with the skip flag) or it fails outright (a pattern error without the
  flag). \<open>failureReasons\<close> and \<open>skipReasons\<close> list, for the candidates from index \<open>idx\<close>
  on and in their order, the reason text of each candidate that failed outright and
  of each candidate that was skipped.
\<close>

definition matches :: "'c env \<Rightarrow> JSON \<Rightarrow> JSON \<Rightarrow> bool" where
  "matches E resource p = (MatchPattern E resource p = None)"

definition failsOutright :: "'c env \<Rightarrow> JSON \<Rightarrow> JSON \<Rightarrow> bool" where
  "failsOutright E resource p =
     (case MatchPattern E resource p of Some (PatternError e path skip) \<Rightarrow> \<not> skip | _ \<Rightarrow> False)"

definition skipWorthy :: "'c env \<Rightarrow> JSON \<Rightarrow> JSON \<Rightarrow> bool" where
  "skipWorthy E resource p =
     (case MatchPattern E resource p of Some (PatternError e path skip) \<Rightarrow> skip | _ \<Rightarrow> False)"

fun failureReasons :: "'c env \<Rightarrow> Rule \<Rightarrow> JSON \<Rightarrow> nat \<Rightarrow> JSON list \<Rightarrow> string list" where
  "failureReasons E r resource idx [] = []"
| "failureReasons E r resource idx (p # ps) =
     (case MatchPattern E resource p of
        Some (PatternError e path False) \<Rightarrow>
          [if path = '''' then ''rule '' @ RuleName r @ ''['' @ itoa idx @ ''] failed: '' @ e
           else ''rule '' @ RuleName r @ ''['' @ itoa idx @ ''] failed at path '' @ path]
      | _ \<Rightarrow> [])
     @ failureReasons E r resource (idx + 1) ps"

fun skipReasons :: "'c env \<Rightarrow> Rule \<Rightarrow> JSON \<Rightarrow> nat \<Rightarrow> JSON list \<Rightarrow> string list" where
  "skipReasons E r resource idx [] = []"
| "skipReasons E r resource idx (p # ps) =
     (case MatchPattern E resource p of
        Some (PatternError e path True) \<Rightarrow>
          [''rule '' @ RuleName r @ ''['' @ itoa idx @ ''] skipped: '' @ e]
      | _ \<Rightarrow> [])
     @ skipReasons E r resource (idx + 1) ps"

text \<open>
  The concatenation of reasons into one message: the reasons in their order, each
  after the first preceded by one space.
\<close>

definition concatenated :: "string list \<Rightarrow> string" where
  "concatenated reasons =
     (case reasons of [] \<Rightarrow> '''' | x # ys \<Rightarrow> x @ concat (map (\<lambda>y. '' '' @ y) ys))"

text \<open>A validator with nothing but an any-pattern, for running \<^verbatim>\<open>validatePatterns\<close>.\<close>

definition anyPatternValidator :: "string \<Rightarrow> string \<Rightarrow> JSON list \<Rightarrow> JSON validator" where
  "anyPatternValidator name msg pats =
     \<lparr>rule = \<lparr>RuleName = name,
               RuleValidation = \<lparr>ValidationMessage = msg, ValidationPattern = JNull,
                 ValidationAnyPattern = JArray pats, ValidationDeny = None,
                 ValidationForEach = None\<rparr>\<rparr>,
      policyContext = JNull, contextEntries = [], anyAllConditions = JNull, pattern = JNull,
      anyPattern = JArray pats, deny = None, forEach = None, nesting = 0\<rparr>"

section \<open>Image verification (pkg/engine/image_verify.go)\<close>

text \<open>
  \<^verbatim>\<open>verifyAndPatchImages\<close> walks the rules of the policy. For each rule it builds the
  handler factory, calls \<^verbatim>\<open>invokeRuleHandler\<close>, keeps the returned resource as the
  matched resource and adds the returned responses to the policy response; with
  apply-rules mode One it leaves the loop once the applied count of the policy
  response is positive.

  The policy response carries the list of responses and the counters of its stats.
  The collaborators of the engine are outside the excerpt and are a record of
  functions: the accessors of the policy context and of the policy,
  \<^verbatim>\<open>autogen.ComputeRules\<close>, \<^verbatim>\<open>Rule.HasVerifyImages\<close>, \<^verbatim>\<open>mutation.NewMutateImageHandler\<close>
  (with the engine's configuration and registry client), \<^verbatim>\<open>engine.invokeRuleHandler\<close>
  and \<^verbatim>\<open>internal.AddRuleResponse\<close> (without the time stamps). The handler writes to the
  image verification metadata through a pointer and may write to the policy context,
  so \<open>invokeRuleHandler\<close> returns both next to its results. The factory closure has no
  effect of its own, so the model passes its result.
\<close>

datatype ApplyRulesType = ApplyAll | ApplyOne

record PolicyResponse =
  Rules :: "RuleResponse list"
  RulesAppliedCount :: nat
  RulesErrorCount :: nat

definition NewPolicyResponse :: PolicyResponse where
  "NewPolicyResponse = \<lparr>Rules = [], RulesAppliedCount = 0, RulesErrorCount = 0\<rparr>"

record ('c, 'p, 'res, 'ivm, 'h) engine =
  Policy :: "'c \<Rightarrow> 'p"
  MatchedResource :: "'c \<Rightarrow> 'res"
  GetApplyRules :: "'p \<Rightarrow> ApplyRulesType"
  ComputeRules :: "'p \<Rightarrow> Rule list"
  HasVerifyImages :: "Rule \<Rightarrow> bool"
  NewMutateImageHandler :: "'c \<Rightarrow> 'res \<Rightarrow> Rule \<Rightarrow> 'ivm \<Rightarrow> string + 'h"
  invokeRuleHandler ::
    "string + 'h option \<Rightarrow> 'c \<Rightarrow> 'res \<Rightarrow> Rule \<Rightarrow> RuleType \<Rightarrow> 'ivm \<Rightarrow>
     'res \<times> RuleResponse list \<times> 'ivm \<times> 'c"
  AddRuleResponse :: "PolicyResponse \<Rightarrow> RuleResponse \<Rightarrow> PolicyResponse"

text \<open>
  The variables of the loop. \<open>invoked\<close> is not a variable of the Go function: it records
  the rules that were handed to \<^verbatim>\<open>invokeRuleHandler\<close>, in order.
\<close>

record ('c, 'res, 'ivm) loopState =
  policyResponse :: PolicyResponse
  matchedResource :: 'res
  ivm :: 'ivm
  policyCtx :: 'c
  invoked :: "Rule list"

definition handlerFactory ::
  "('c, 'p, 'res, 'ivm, 'h) engine \<Rightarrow> ('c, 'res, 'ivm) loopState \<Rightarrow> Rule \<Rightarrow> string + 'h option" where
  "handlerFactory e st r =
     (if \<not> HasVerifyImages e r then Inr None
      else (case NewMutateImageHandler e (policyCtx st) (matchedResource st) r (ivm st) of
              Inl err \<Rightarrow> Inl err
            | Inr h \<Rightarrow> Inr (Some h)))"

text \<open>One iteration up to the test of the apply-rules mode.\<close>

definition ruleStep ::
  "('c, 'p, 'res, 'ivm, 'h) engine \<Rightarrow> Rule \<Rightarrow> ('c, 'res, 'ivm) loopState \<Rightarrow> ('c, 'res, 'ivm) loopState" where
  "ruleStep e r st =
     (case invokeRuleHandler e (handlerFactory e st r) (policyCtx st) (matchedResource st) r
             ImageVerify (ivm st) of
        (resource, ruleResp, ivm', ctx') \<Rightarrow>
          \<lparr>policyResponse = foldl (AddRuleResponse e) (policyResponse st) ruleResp, matchedResource = resource,
           ivm = ivm', policyCtx = ctx', invoked = invoked st @ [r]\<rparr>)"

fun rulesLoop ::
  "('c, 'p, 'res, 'ivm, 'h) engine \<Rightarrow> ApplyRulesType \<Rightarrow> Rule list \<Rightarrow> ('c, 'res, 'ivm) loopState \<Rightarrow>
   ('c, 'res, 'ivm) loopState" where
  "rulesLoop e applyRules [] st = st"
| "rulesLoop e applyRules (r # rest) st =
     (if applyRules = ApplyOne \<and> RulesAppliedCount (policyResponse (ruleStep e r st)) > 0
      then ruleStep e r st
      else rulesLoop e applyRules rest (ruleStep e r st))"

definition verifyAndPatchImagesRun ::
  "('c, 'p, 'res, 'ivm, 'h) engine \<Rightarrow> 'ivm \<Rightarrow> 'c \<Rightarrow> ('c, 'res, 'ivm) loopState" where
  "verifyAndPatchImagesRun e ivmEmpty policyContext0 =
     rulesLoop e (GetApplyRules e (Policy e policyContext0))
       (ComputeRules e (Policy e policyContext0))
       \<lparr>policyResponse = NewPolicyResponse, matchedResource = MatchedResource e policyContext0,
        ivm = ivmEmpty, policyCtx = policyContext0, invoked = []\<rparr>"

definition verifyAndPatchImages ::
  "('c, 'p, 'res, 'ivm, 'h) engine \<Rightarrow> 'ivm \<Rightarrow> 'c \<Rightarrow> PolicyResponse \<times> 'ivm" where
  "verifyAndPatchImages e ivmEmpty policyContext0 =
     (policyResponse (verifyAndPatchImagesRun e ivmEmpty policyContext0),
      ivm (verifyAndPatchImagesRun e ivmEmpty policyContext0))"

text \<open>
  An engine to run the loop with: the policy is its apply-rules mode and its rules,
  every rule verifies images, the handler of a rule named \<open>skip\<close> returns no response
  and any other handler returns one Pass response, and a response with status Pass
  or Fail counts as applied.
\<close>

definition exampleEngine :: "(ApplyRulesType \<times> Rule list, ApplyRulesType \<times> Rule list, JSON, nat, unit) engine" where
  "exampleEngine =
     \<lparr>Policy = (\<lambda>ctx. ctx),
      MatchedResource = (\<lambda>ctx. JNull),
      GetApplyRules = fst,
      ComputeRules = snd,
      HasVerifyImages = (\<lambda>r. True),
      NewMutateImageHandler = (\<lambda>ctx res r m. Inr ()),
      invokeRuleHandler = (\<lambda>factory ctx res r t m.
         (res, if RuleName r = ''skip'' then [] else [RulePass r t ''verified''], m + 1, ctx)),
      AddRuleResponse = (\<lambda>pr rr.
         pr\<lparr>Rules := Rules pr @ [rr],
            RulesAppliedCount :=
              (if Status rr = RuleStatusPass \<or> Status rr = RuleStatusFail
               then RulesAppliedCount pr + 1 else RulesAppliedCount pr)\<rparr>)\<rparr>"

definition namedRule :: "string \<Rightarrow> Rule" where
  "namedRule n =
     \<lparr>RuleName = n,
      RuleValidation = \<lparr>ValidationMessage = '''', ValidationPattern = JNull,
        ValidationAnyPattern = JNull, ValidationDeny = None, ValidationForEach = None\<rparr>\<rparr>"

section \<open>Expression functions (pkg/engine/jmespath)\<close>

subsection \<open>Errors\<close>

text \<open>
  Modelled from the spec: \<^verbatim>\<open>formatError\<close> and the error kinds are declared in a file of
  the package that is not in the excerpt. An error built by \<^verbatim>\<open>formatError\<close> is its kind
  (the taxonomy of section 7), the name of the function and the further arguments of
  the call; \<open>LibraryError\<close> is an error returned by a library call and passed on.
\<close>

datatype ErrorKind =
  genericError | invalidArgumentTypeError | typeMismatchError | zeroDivisionError
  | nonIntModuloError

datatype ErrorArg = ArgArguments "JSON list" | ArgInt int | ArgString string

datatype jpError = formatError ErrorKind string "ErrorArg list" | LibraryError string

text \<open>The function names used in error messages.\<close>

definition add :: string where "add = ''add''"
definition sum_fn :: string where "sum_fn = ''sum''"
definition subtract :: string where "subtract = ''subtract''"
definition multiply :: string where "multiply = ''multiply''"
definition divide_fn :: string where "divide_fn = ''divide''"
definition modulo_fn :: string where "modulo_fn = ''modulo''"
definition items :: string where "items = ''items''"

subsection \<open>items\<close>

text \<open>
  \<^verbatim>\<open>jpItems\<close> reads its second and third argument as strings and switches on the type of
  the first. Indexing the argument slice panics when the slice is too short. For an
  object the keys are collected in the iteration order of the map (the order of the
  association list), sorted with \<^verbatim>\<open>sort.Strings\<close> (bytewise lexicographic, the order of
  \<open>string\<close> here), and one object is emitted per key. The emitted object is the map
  literal \<^verbatim>\<open>{keyName: key, valName: input[key]}\<close>: when the two names are equal the second
  entry replaces the first. \<open>lookup\<close> is the map read \<^verbatim>\<open>input[key]\<close>, \<^verbatim>\<open>nil\<close> for a missing key.
\<close>

definition lookup :: "(string \<times> JSON) list \<Rightarrow> string \<Rightarrow> JSON" where
  "lookup input key = (case map_of input key of None \<Rightarrow> JNull | Some x \<Rightarrow> x)"

definition itemObject :: "string \<Rightarrow> string \<Rightarrow> JSON \<Rightarrow> JSON \<Rightarrow> JSON" where
  "itemObject keyName valName k x = JObject (AList.update valName x (AList.update keyName k []))"

definition jpItems :: "JSON list \<Rightarrow> (jpError + JSON) outcome" where
  "jpItems arguments =
     (if length arguments \<le> 1 then Panic ''index out of range [1]''
      else (case arguments ! 1 of
        JString keyName \<Rightarrow>
          (if length arguments \<le> 2 then Panic ''index out of range [2]''
           else (case arguments ! 2 of
             JString valName \<Rightarrow>
               (case arguments ! 0 of
                  JObject input \<Rightarrow>
                    Return (Inr (JArray
                      (map (\<lambda>key. itemObject keyName valName (JString key) (lookup input key))
                         (sort (map fst input)))))
                | JArray input \<Rightarrow>
                    Return (Inr (JArray
                      (map (\<lambda>(index, val). itemObject keyName valName (JNumber (Fin (of_nat index))) val)
                         (enumerate 0 input))))
                | _ \<Rightarrow>
                    Return (Inl (formatError invalidArgumentTypeError items
                      [ArgArguments arguments, ArgInt 0, ArgString ''Object or Array''])))
           | _ \<Rightarrow>
               Return (Inl (formatError invalidArgumentTypeError items
                 [ArgArguments arguments, ArgInt 2, ArgString ''String'']))))
      | _ \<Rightarrow>
          Return (Inl (formatError invalidArgumentTypeError items
            [ArgArguments arguments, ArgInt 1, ArgString ''String'']))))"

subsection \<open>float64 and int64\<close>

text \<open>
  Arithmetic on float64 follows IEEE 754: the exact result is rounded to the nearest
  representable value. The rounding of a value that is not representable (which
  includes overflow to an infinity) is the parameter \<open>round64\<close>; an integer that is
  representable (\<open>exactInt\<close> below) is its own rounding. Go leaves the
  conversion of a float64 that is not in the range of int64 (or is not a number) to
  the implementation: it is the parameter \<open>convOutOfRange\<close>. A division by the one
  zero of the model takes the zero as positive; the arithmetic methods test for a zero
  divisor before they divide.

  int64 and \<^verbatim>\<open>time.Duration\<close> are 64-bit words read as two's complement: \<open>+\<close> and \<open>-\<close>
  wrap, and \<open>quo64\<close> and \<open>rem64\<close> are Go's \<^verbatim>\<open>/\<close> and \<^verbatim>\<open>%\<close> on int64, which truncate towards zero
  (\<open>sdiv\<close> and \<open>smod\<close> on the signed values).

  \<^verbatim>\<open>resource.Quantity\<close> and \<^verbatim>\<open>inf.Dec\<close> are library types. The model takes them as the
  types \<open>'q\<close> and \<open>'d\<close> (and \<open>'f\<close> for the display format of a quantity) with the library
  functions the methods call as parameters, in one record with the parameters of
  float64.
\<close>

type_synonym int64 = "64 word"

definition quo64 :: "int64 \<Rightarrow> int64 \<Rightarrow> int64" where
  "quo64 a b = word_of_int (sint a sdiv sint b)"

definition rem64 :: "int64 \<Rightarrow> int64 \<Rightarrow> int64" where
  "rem64 a b = word_of_int (sint a smod sint b)"

record ('q, 'd, 'f) lib =
  round64 :: "rat \<Rightarrow> float64"
  convOutOfRange :: "float64 \<Rightarrow> int64"
  ParseQuantity :: "string \<Rightarrow> string + 'q"
  ParseDuration :: "string \<Rightarrow> string + int64"
  Sprintf_v :: "float64 \<Rightarrow> string"
  QuantityAdd :: "'q \<Rightarrow> 'q \<Rightarrow> 'q"
  QuantitySub :: "'q \<Rightarrow> 'q \<Rightarrow> 'q"
  QuantityString :: "'q \<Rightarrow> string"
  DurationString :: "int64 \<Rightarrow> string"
  AsDec :: "'q \<Rightarrow> 'd"
  Format :: "'q \<Rightarrow> 'f"
  DecMul :: "'d \<Rightarrow> 'd \<Rightarrow> 'd"
  DecScale :: "'d \<Rightarrow> int"
  DecQuoRoundDown :: "'d \<Rightarrow> 'd \<Rightarrow> int \<Rightarrow> 'd"
  NewDecimalQuantity :: "'d \<Rightarrow> 'f \<Rightarrow> 'q"
  NewQuantity :: "int64 \<Rightarrow> 'f \<Rightarrow> 'q"
  AsApproximateFloat64 :: "'q \<Rightarrow> float64"
  ToDec :: "'q \<Rightarrow> 'q"

definition is_int :: "rat \<Rightarrow> bool" where
  "is_int r = (of_int \<lfloor>r\<rfloor> = r)"

text \<open>
  The odd part of an integer: what is left after dividing by two as often as possible.
  An integer is a float64 exactly when its odd part has at most 53 bits and the
  integer is below \<open>2 ^ 1024\<close> in magnitude.
\<close>

function oddPart :: "int \<Rightarrow> int" where
  "oddPart i = (if i = 0 then 0 else if even i then oddPart (i div 2) else i)"
  by pat_completeness auto
termination
  by (relation "measure (\<lambda>i. nat \<bar>i\<bar>)") auto

declare oddPart.simps [simp del]

definition exactInt :: "int \<Rightarrow> bool" where
  "exactInt i = (\<bar>oddPart i\<bar> < 2 ^ 53 \<and> \<bar>i\<bar> < 2 ^ 1024)"

definition int64Range :: "int \<Rightarrow> bool" where
  "int64Range i = (- (2 ^ 63) \<le> i \<and> i < 2 ^ 63)"

definition fround :: "('q, 'd, 'f) lib \<Rightarrow> rat \<Rightarrow> float64" where
  "fround L r = (if is_int r \<and> exactInt \<lfloor>r\<rfloor> then Fin r else round64 L r)"

fun fadd :: "('q, 'd, 'f) lib \<Rightarrow> float64 \<Rightarrow> float64 \<Rightarrow> float64" where
  "fadd L (Fin x) (Fin y) = fround L (x + y)"
| "fadd L NaN b = NaN"
| "fadd L a NaN = NaN"
| "fadd L PInf NInf = NaN"
| "fadd L NInf PInf = NaN"
| "fadd L PInf b = PInf"
| "fadd L NInf b = NInf"
| "fadd L (Fin x) b = b"

fun fneg :: "float64 \<Rightarrow> float64" where
  "fneg (Fin x) = Fin (- x)"
| "fneg PInf = NInf"
| "fneg NInf = PInf"
| "fneg NaN = NaN"

definition fsub :: "('q, 'd, 'f) lib \<Rightarrow> float64 \<Rightarrow> float64 \<Rightarrow> float64" where
  "fsub L a b = fadd L a (fneg b)"

text \<open>The sign of a float64 that is not NaN: \<open>True\<close> for a negative value.\<close>

fun negative :: "float64 \<Rightarrow> bool" where
  "negative (Fin x) = (x < 0)"
| "negative NInf = True"
| "negative a = False"

fun fmul :: "('q, 'd, 'f) lib \<Rightarrow> float64 \<Rightarrow> float64 \<Rightarrow> float64" where
  "fmul L (Fin x) (Fin y) = fround L (x * y)"
| "fmul L NaN b = NaN"
| "fmul L a NaN = NaN"
| "fmul L a b =
     (if a = Fin 0 \<or> b = Fin 0 then NaN
      else if negative a = negative b then PInf else NInf)"

fun fdiv :: "('q, 'd, 'f) lib \<Rightarrow> float64 \<Rightarrow> float64 \<Rightarrow> float64" where
  "fdiv L (Fin x) (Fin y) =
     (if y = 0 then (if x = 0 then NaN else if x < 0 then NInf else PInf)
      else fround L (x / y))"
| "fdiv L NaN b = NaN"
| "fdiv L a NaN = NaN"
| "fdiv L (Fin x) b = Fin 0"
| "fdiv L a (Fin y) = (if negative a = (y < 0) then PInf else NInf)"
| "fdiv L a b = NaN"

text \<open>\<^verbatim>\<open>==\<close> on float64: NaN is equal to nothing.\<close>

fun feq :: "float64 \<Rightarrow> float64 \<Rightarrow> bool" where
  "feq NaN b = False"
| "feq a NaN = False"
| "feq a b = (a = b)"

definition trunc :: "rat \<Rightarrow> int" where
  "trunc r = (if r < 0 then \<lceil>r\<rceil> else \<lfloor>r\<rfloor>)"

text \<open>The conversions \<^verbatim>\<open>int64(f)\<close> and \<^verbatim>\<open>float64(i)\<close>.\<close>

definition int64_of_float :: "('q, 'd, 'f) lib \<Rightarrow> float64 \<Rightarrow> int64" where
  "int64_of_float L f =
     (case f of
        Fin r \<Rightarrow> if int64Range (trunc r) then word_of_int (trunc r) else convOutOfRange L f
      | _ \<Rightarrow> convOutOfRange L f)"

definition float_of_int64 :: "('q, 'd, 'f) lib \<Rightarrow> int64 \<Rightarrow> float64" where
  "float_of_int64 L i = fround L (of_int (sint i))"

subsection \<open>Operands (arithmetic.go)\<close>

text \<open>
  An operand is a quantity, a duration or a scalar. A method returns an error or a
  value in an \<^verbatim>\<open>interface{}\<close>: a float64, the \<^verbatim>\<open>String()\<close> of a quantity or the \<^verbatim>\<open>String()\<close>
  of a duration. The model keeps which of the three it is and leaves the rendering to
  \<open>render\<close>.
\<close>

datatype 'q Operand = Quantity 'q | Duration int64 | Scalar float64

datatype 'q Result = ResultFloat float64 | ResultQuantity 'q | ResultDuration int64

definition render :: "('q, 'd, 'f) lib \<Rightarrow> 'q Result \<Rightarrow> JSON" where
  "render L res =
     (case res of
        ResultFloat x \<Rightarrow> JNumber x
      | ResultQuantity q \<Rightarrow> JString (QuantityString L q)
      | ResultDuration d \<Rightarrow> JString (DurationString L d))"

text \<open>\<^verbatim>\<open>time.Second\<close> and \<^verbatim>\<open>Duration.Seconds\<close>.\<close>

definition Second :: int64 where
  "Second = 1000000000"

definition Seconds :: "('q, 'd, 'f) lib \<Rightarrow> int64 \<Rightarrow> float64" where
  "Seconds L d =
     fadd L (float_of_int64 L (quo64 d Second))
       (fdiv L (float_of_int64 L (rem64 d Second)) (Fin 1000000000))"

definition Quantity_Add ::
  "('q, 'd, 'f) lib \<Rightarrow> 'q \<Rightarrow> 'q Operand \<Rightarrow> string \<Rightarrow> jpError + 'q Result" where
  "Quantity_Add L op1 op2 operator =
     (case op2 of
        Quantity v \<Rightarrow> Inr (ResultQuantity (QuantityAdd L op1 v))
      | _ \<Rightarrow> Inl (formatError typeMismatchError operator []))"

definition Duration_Add ::
  "('q, 'd, 'f) lib \<Rightarrow> int64 \<Rightarrow> 'q Operand \<Rightarrow> string \<Rightarrow> jpError + 'q Result" where
  "Duration_Add L op1 op2 operator =
     (case op2 of
        Duration v \<Rightarrow> Inr (ResultDuration (op1 + v))
      | _ \<Rightarrow> Inl (formatError typeMismatchError operator []))"

definition Scalar_Add ::
  "('q, 'd, 'f) lib \<Rightarrow> float64 \<Rightarrow> 'q Operand \<Rightarrow> string \<Rightarrow> jpError + 'q Result" where
  "Scalar_Add L op1 op2 operator =
     (case op2 of
        Scalar v \<Rightarrow> Inr (ResultFloat (fadd L op1 v))
      | _ \<Rightarrow> Inl (formatError typeMismatchError operator []))"

definition Quantity_Subtract ::
  "('q, 'd, 'f) lib \<Rightarrow> 'q \<Rightarrow> 'q Operand \<Rightarrow> jpError + 'q Result" where
  "Quantity_Subtract L op1 op2 =
     (case op2 of
        Quantity v \<Rightarrow> Inr (ResultQuantity (QuantitySub L op1 v))
      | _ \<Rightarrow> Inl (formatError typeMismatchError subtract []))"

definition Duration_Subtract ::
  "('q, 'd, 'f) lib \<Rightarrow> int64 \<Rightarrow> 'q Operand \<Rightarrow> jpError + 'q Result" where
  "Duration_Subtract L op1 op2 =
     (case op2 of
        Duration v \<Rightarrow> Inr (ResultDuration (op1 - v))
      | _ \<Rightarrow> Inl (formatError typeMismatchError subtract []))"

definition Scalar_Subtract ::
  "('q, 'd, 'f) lib \<Rightarrow> float64 \<Rightarrow> 'q Operand \<Rightarrow> jpError + 'q Result" where
  "Scalar_Subtract L op1 op2 =
     (case op2 of
        Scalar v \<Rightarrow> Inr (ResultFloat (fsub L op1 v))
      | _ \<Rightarrow> Inl (formatError typeMismatchError subtract []))"

definition Quantity_Multiply ::
  "('q, 'd, 'f) lib \<Rightarrow> 'q \<Rightarrow> 'q Operand \<Rightarrow> jpError + 'q Result" where
  "Quantity_Multiply L op1 op2 =
     (case op2 of
        Scalar v \<Rightarrow>
          (case ParseQuantity L (Sprintf_v L v) of
             Inl err \<Rightarrow> Inl (LibraryError err)
           | Inr q \<Rightarrow>
               Inr (ResultQuantity
                 (NewDecimalQuantity L (DecMul L (AsDec L op1) (AsDec L q)) (Format L op1))))
      | _ \<Rightarrow> Inl (formatError typeMismatchError multiply []))"

definition Duration_Multiply ::
  "('q, 'd, 'f) lib \<Rightarrow> int64 \<Rightarrow> 'q Operand \<Rightarrow> jpError + 'q Result" where
  "Duration_Multiply L op1 op2 =
     (case op2 of
        Scalar v \<Rightarrow>
          Inr (ResultDuration
            (int64_of_float L (fmul L (fmul L (Seconds L op1) v) (float_of_int64 L Second))))
      | _ \<Rightarrow> Inl (formatError typeMismatchError multiply []))"

definition Scalar_Multiply ::
  "('q, 'd, 'f) lib \<Rightarrow> float64 \<Rightarrow> 'q Operand \<Rightarrow> jpError + 'q Result" where
  "Scalar_Multiply L op1 op2 =
     (case op2 of
        Scalar v \<Rightarrow> Inr (ResultFloat (fmul L op1 v))
      | Quantity v \<Rightarrow> Quantity_Multiply L v (Scalar op1)
      | Duration v \<Rightarrow> Duration_Multiply L v (Scalar op1))"

definition Quantity_Divide ::
  "('q, 'd, 'f) lib \<Rightarrow> 'q \<Rightarrow> 'q Operand \<Rightarrow> jpError + 'q Result" where
  "Quantity_Divide L op1 op2 =
     (case op2 of
        Quantity v \<Rightarrow>
          (if feq (AsApproximateFloat64 L v) (Fin 0) then Inl (formatError zeroDivisionError divide_fn [])
           else Inr (ResultFloat (fdiv L (AsApproximateFloat64 L op1) (AsApproximateFloat64 L v))))
      | Scalar v \<Rightarrow>
          (if feq v (Fin 0) then Inl (formatError zeroDivisionError divide_fn [])
           else (case ParseQuantity L (Sprintf_v L v) of
                   Inl err \<Rightarrow> Inl (LibraryError err)
                 | Inr q \<Rightarrow>
                     Inr (ResultQuantity
                       (NewDecimalQuantity L
                          (DecQuoRoundDown L (AsDec L op1) (AsDec L q)
                             (max (DecScale L (AsDec L op1)) (DecScale L (AsDec L q))))
                          (Format L op1)))))
      | _ \<Rightarrow> Inl (formatError typeMismatchError divide_fn []))"

definition Duration_Divide ::
  "('q, 'd, 'f) lib \<Rightarrow> int64 \<Rightarrow> 'q Operand \<Rightarrow> jpError + 'q Result" where
  "Duration_Divide L op1 op2 =
     (case op2 of
        Duration v \<Rightarrow>
          (if feq (Seconds L v) (Fin 0) then Inl (formatError zeroDivisionError divide_fn [])
           else Inr (ResultFloat (fdiv L (Seconds L op1) (Seconds L v))))
      | Scalar v \<Rightarrow>
          (if feq v (Fin 0) then Inl (formatError zeroDivisionError divide_fn [])
           else Inr (ResultDuration
                  (int64_of_float L
                     (fmul L (fdiv L (Seconds L op1) v) (float_of_int64 L Second)))))
      | _ \<Rightarrow> Inl (formatError typeMismatchError divide_fn []))"

definition Scalar_Divide ::
  "('q, 'd, 'f) lib \<Rightarrow> float64 \<Rightarrow> 'q Operand \<Rightarrow> jpError + 'q Result" where
  "Scalar_Divide L op1 op2 =
     (case op2 of
        Scalar v \<Rightarrow>
          (if feq v (Fin 0) then Inl (formatError zeroDivisionError divide_fn [])
           else Inr (ResultFloat (fdiv L op1 v)))
      | _ \<Rightarrow> Inl (formatError typeMismatchError divide_fn []))"

definition Quantity_Modulo ::
  "('q, 'd, 'f) lib \<Rightarrow> 'q \<Rightarrow> 'q Operand \<Rightarrow> jpError + 'q Result" where
  "Quantity_Modulo L op1 op2 =
     (case op2 of
        Quantity v \<Rightarrow>
          (if \<not> feq (AsApproximateFloat64 L (ToDec L op1))
                  (float_of_int64 L (int64_of_float L (AsApproximateFloat64 L (ToDec L op1))))
             then Inl (formatError nonIntModuloError modulo_fn [])
           else if \<not> feq (AsApproximateFloat64 L (ToDec L v))
                  (float_of_int64 L (int64_of_float L (AsApproximateFloat64 L (ToDec L v))))
             then Inl (formatError nonIntModuloError modulo_fn [])
           else if int64_of_float L (AsApproximateFloat64 L (ToDec L v)) = 0
             then Inl (formatError zeroDivisionError modulo_fn [])
           else Inr (ResultQuantity
                  (NewQuantity L
                     (rem64 (int64_of_float L (AsApproximateFloat64 L (ToDec L op1)))
                        (int64_of_float L (AsApproximateFloat64 L (ToDec L v))))
                     (Format L op1))))
      | _ \<Rightarrow> Inl (formatError typeMismatchError modulo_fn []))"

definition Duration_Modulo ::
  "('q, 'd, 'f) lib \<Rightarrow> int64 \<Rightarrow> 'q Operand \<Rightarrow> jpError + 'q Result" where
  "Duration_Modulo L op1 op2 =
     (case op2 of
        Duration v \<Rightarrow>
          (if v = 0 then Inl (formatError zeroDivisionError modulo_fn [])
           else Inr (ResultDuration (rem64 op1 v)))
      | _ \<Rightarrow> Inl (formatError typeMismatchError modulo_fn []))"

definition Scalar_Modulo ::
  "('q, 'd, 'f) lib \<Rightarrow> float64 \<Rightarrow> 'q Operand \<Rightarrow> jpError + 'q Result" where
  "Scalar_Modulo L op1 op2 =
     (case op2 of
        Scalar v \<Rightarrow>
          (if \<not> feq op1 (float_of_int64 L (int64_of_float L op1))
             then Inl (formatError nonIntModuloError modulo_fn [])
           else if \<not> feq v (float_of_int64 L (int64_of_float L v))
             then Inl (formatError nonIntModuloError modulo_fn [])
           else if int64_of_float L v = 0
             then Inl (formatError zeroDivisionError modulo_fn [])
           else Inr (ResultFloat (float_of_int64 L (rem64 (int64_of_float L op1) (int64_of_float L v)))))
      | _ \<Rightarrow> Inl (formatError typeMismatchError modulo_fn []))"

text \<open>The methods of the interface \<^verbatim>\<open>Operand\<close>, dispatched on the type of the receiver.\<close>

definition Add :: "('q, 'd, 'f) lib \<Rightarrow> 'q Operand \<Rightarrow> 'q Operand \<Rightarrow> string \<Rightarrow> jpError + 'q Result" where
  "Add L op1 op2 operator =
     (case op1 of
        Quantity q \<Rightarrow> Quantity_Add L q op2 operator
      | Duration d \<Rightarrow> Duration_Add L d op2 operator
      | Scalar s \<Rightarrow> Scalar_Add L s op2 operator)"

definition Subtract :: "('q, 'd, 'f) lib \<Rightarrow> 'q Operand \<Rightarrow> 'q Operand \<Rightarrow> jpError + 'q Result" where
  "Subtract L op1 op2 =
     (case op1 of
        Quantity q \<Rightarrow> Quantity_Subtract L q op2
      | Duration d \<Rightarrow> Duration_Subtract L d op2
      | Scalar s \<Rightarrow> Scalar_Subtract L s op2)"

definition Multiply :: "('q, 'd, 'f) lib \<Rightarrow> 'q Operand \<Rightarrow> 'q Operand \<Rightarrow> jpError + 'q Result" where
  "Multiply L op1 op2 =
     (case op1 of
        Quantity q \<Rightarrow> Quantity_Multiply L q op2
      | Duration d \<Rightarrow> Duration_Multiply L d op2
      | Scalar s \<Rightarrow> Scalar_Multiply L s op2)"

definition Divide :: "('q, 'd, 'f) lib \<Rightarrow> 'q Operand \<Rightarrow> 'q Operand \<Rightarrow> jpError + 'q Result" where
  "Divide L op1 op2 =
     (case op1 of
        Quantity q \<Rightarrow> Quantity_Divide L q op2
      | Duration d \<Rightarrow> Duration_Divide L d op2
      | Scalar s \<Rightarrow> Scalar_Divide L s op2)"

definition Modulo :: "('q, 'd, 'f) lib \<Rightarrow> 'q Operand \<Rightarrow> 'q Operand \<Rightarrow> jpError + 'q Result" where
  "Modulo L op1 op2 =
     (case op1 of
        Quantity q \<Rightarrow> Quantity_Modulo L q op2
      | Duration d \<Rightarrow> Duration_Modulo L d op2
      | Scalar s \<Rightarrow> Scalar_Modulo L s op2)"

subsection \<open>The arithmetic functions (functions.go)\<close>

text \<open>
  Modelled from the spec: \<^verbatim>\<open>validateArg\<close> is not in the excerpt. It checks the JSON type of
  the argument at a position and fails with an invalid-argument-type error naming the
  function, the position and the expected type (section 4.1).
\<close>

datatype Kind = KindFloat64 | KindString

definition validateArg :: "string \<Rightarrow> JSON list \<Rightarrow> nat \<Rightarrow> Kind \<Rightarrow> jpError + JSON" where
  "validateArg f arguments index expectedType =
     (if index < length arguments \<and>
         (case arguments ! index of
            JNumber x \<Rightarrow> expectedType = KindFloat64
          | JString s \<Rightarrow> expectedType = KindString
          | _ \<Rightarrow> False)
      then Inr (arguments ! index)
      else Inl (formatError invalidArgumentTypeError f
             [ArgInt (int index + 1),
              ArgString (case expectedType of KindFloat64 \<Rightarrow> ''float64'' | KindString \<Rightarrow> ''string'')]))"

text \<open>
  One round of the loop of \<^verbatim>\<open>ParseArithemticOperands\<close>: a number is a scalar; a string is
  a quantity if it parses as one, else a duration if it parses as one; anything else
  leaves the operand \<^verbatim>\<open>nil\<close>.
\<close>

definition parseOperand :: "('q, 'd, 'f) lib \<Rightarrow> JSON list \<Rightarrow> nat \<Rightarrow> 'q Operand option" where
  "parseOperand L arguments i =
     (case validateArg divide_fn arguments i KindFloat64 of
        Inr (JNumber x) \<Rightarrow> Some (Scalar x)
      | _ \<Rightarrow>
          (case validateArg divide_fn arguments i KindString of
             Inr (JString s) \<Rightarrow>
               (case ParseQuantity L s of
                  Inr q \<Rightarrow> Some (Quantity q)
                | Inl err \<Rightarrow>
                    (case ParseDuration L s of
                       Inr d \<Rightarrow> Some (Duration d)
                     | Inl err' \<Rightarrow> None))
           | _ \<Rightarrow> None))"

definition ParseArithemticOperands ::
  "('q, 'd, 'f) lib \<Rightarrow> JSON list \<Rightarrow> string \<Rightarrow> jpError + ('q Operand \<times> 'q Operand)" where
  "ParseArithemticOperands L arguments operator =
     (case (parseOperand L arguments 0, parseOperand L arguments 1) of
        (Some op1, Some op2) \<Rightarrow> Inr (op1, op2)
      | _ \<Rightarrow> Inl (formatError genericError operator [ArgString ''invalid operands'']))"

definition rendered :: "('q, 'd, 'f) lib \<Rightarrow> jpError + 'q Result \<Rightarrow> jpError + JSON" where
  "rendered L res = (case res of Inl err \<Rightarrow> Inl err | Inr x \<Rightarrow> Inr (render L x))"

definition jpAdd' :: "('q, 'd, 'f) lib \<Rightarrow> JSON list \<Rightarrow> string \<Rightarrow> jpError + JSON" where
  "jpAdd' L arguments operator =
     (case ParseArithemticOperands L arguments operator of
        Inl err \<Rightarrow> Inl err
      | Inr (op1, op2) \<Rightarrow> rendered L (Add L op1 op2 operator))"

definition jpAdd :: "('q, 'd, 'f) lib \<Rightarrow> JSON list \<Rightarrow> jpError + JSON" where
  "jpAdd L arguments = jpAdd' L arguments add"

definition jpSubtract :: "('q, 'd, 'f) lib \<Rightarrow> JSON list \<Rightarrow> jpError + JSON" where
  "jpSubtract L arguments =
     (case ParseArithemticOperands L arguments subtract of
        Inl err \<Rightarrow> Inl err
      | Inr (op1, op2) \<Rightarrow> rendered L (Subtract L op1 op2))"

definition jpMultiply :: "('q, 'd, 'f) lib \<Rightarrow> JSON list \<Rightarrow> jpError + JSON" where
  "jpMultiply L arguments =
     (case ParseArithemticOperands L arguments multiply of
        Inl err \<Rightarrow> Inl err
      | Inr (op1, op2) \<Rightarrow> rendered L (Multiply L op1 op2))"

definition jpDivide :: "('q, 'd, 'f) lib \<Rightarrow> JSON list \<Rightarrow> jpError + JSON" where
  "jpDivide L arguments =
     (case ParseArithemticOperands L arguments divide_fn of
        Inl err \<Rightarrow> Inl err
      | Inr (op1, op2) \<Rightarrow> rendered L (Divide L op1 op2))"

definition jpModulo :: "('q, 'd, 'f) lib \<Rightarrow> JSON list \<Rightarrow> jpError + JSON" where
  "jpModulo L arguments =
     (case ParseArithemticOperands L arguments modulo_fn of
        Inl err \<Rightarrow> Inl err
      | Inr (op1, op2) \<Rightarrow> rendered L (Modulo L op1 op2))"

subsection \<open>Tags and the legality table\<close>

text \<open>
  The tag of an operand and of a result, the five binary operations, and the call of
  an operation on two operands with the function name it reports in its errors.
\<close>

datatype Tag = TQuantity | TDuration | TScalar

datatype ArithOp = OpAdd | OpSubtract | OpMultiply | OpDivide | OpModulo

fun tagOf :: "'q Operand \<Rightarrow> Tag" where
  "tagOf (Quantity q) = TQuantity"
| "tagOf (Duration d) = TDuration"
| "tagOf (Scalar s) = TScalar"

fun resultTag :: "'q Result \<Rightarrow> Tag" where
  "resultTag (ResultQuantity q) = TQuantity"
| "resultTag (ResultDuration d) = TDuration"
| "resultTag (ResultFloat s) = TScalar"

fun opName :: "ArithOp \<Rightarrow> string" where
  "opName OpAdd = add"
| "opName OpSubtract = subtract"
| "opName OpMultiply = multiply"
| "opName OpDivide = divide_fn"
| "opName OpModulo = modulo_fn"

fun applyOp :: "('q, 'd, 'f) lib \<Rightarrow> ArithOp \<Rightarrow> 'q Operand \<Rightarrow> 'q Operand \<Rightarrow> jpError + 'q Result" where
  "applyOp L OpAdd a b = Add L a b add"
| "applyOp L OpSubtract a b = Subtract L a b"
| "applyOp L OpMultiply a b = Multiply L a b"
| "applyOp L OpDivide a b = Divide L a b"
| "applyOp L OpModulo a b = Modulo L a b"

text \<open>
  \<open>specTable\<close> is the legality table as the specification words it (section 4.1): the
  result tag of a listed pair, \<open>None\<close> for a pair that is not listed. The mixed columns
  of the table (a scalar with a quantity, a scalar with a duration) are read in either
  order. \<open>codeTable\<close> adds the two pairs that the comments of \<^verbatim>\<open>arithmetic.go\<close> list for
  division and the specification's table leaves out: a quantity or a duration divided
  by a scalar.
\<close>

fun specTable :: "ArithOp \<Rightarrow> Tag \<Rightarrow> Tag \<Rightarrow> Tag option" where
  "specTable OpMultiply TScalar t = Some t"
| "specTable OpMultiply t TScalar = Some t"
| "specTable OpMultiply a b = None"
| "specTable OpDivide a b = (if a = b then Some TScalar else None)"
| "specTable oper a b = (if a = b then Some a else None)"

fun codeTable :: "ArithOp \<Rightarrow> Tag \<Rightarrow> Tag \<Rightarrow> Tag option" where
  "codeTable OpDivide TQuantity TScalar = Some TQuantity"
| "codeTable OpDivide TDuration TScalar = Some TDuration"
| "codeTable oper a b = specTable oper a b"

text \<open>
  The failures of a pair that the table lists, in terms of the operands:

  \<^item> division by a zero divisor fails with the zero-division error; the divisor is zero
    when it is the scalar 0, a quantity whose approximate float64 value is 0, or a
    duration of 0 seconds;

  \<^item> modulo of two durations fails with the zero-division error when the divisor is 0;

  \<^item> modulo of two scalars or two quantities works on the float64 values of the
    operands (for a quantity the approximate float64 value of its decimal form): it
    fails with the non-integer error unless both values are whole (\<open>whole\<close>: the value
    is the same after the conversion to int64 and back), and with the zero-division
    error when both are whole and the divisor is 0;

  \<^item> multiplication of a quantity and a scalar, and division of a quantity by a scalar
    that is not 0, fail with the error of the library when the printed scalar does not
    parse as a quantity.

  Every other call on a listed pair returns a value.
\<close>

definition whole :: "('q, 'd, 'f) lib \<Rightarrow> float64 \<Rightarrow> bool" where
  "whole L f = feq f (float_of_int64 L (int64_of_float L f))"

definition moduloValue :: "('q, 'd, 'f) lib \<Rightarrow> 'q Operand \<Rightarrow> float64" where
  "moduloValue L x =
     (case x of
        Scalar v \<Rightarrow> v
      | Quantity q \<Rightarrow> AsApproximateFloat64 L (ToDec L q)
      | Duration d \<Rightarrow> Fin (of_int (sint d)))"

definition parseFailure :: "('q, 'd, 'f) lib \<Rightarrow> float64 \<Rightarrow> jpError option" where
  "parseFailure L v =
     (case ParseQuantity L (Sprintf_v L v) of
        Inl err \<Rightarrow> Some (LibraryError err)
      | Inr q \<Rightarrow> None)"

fun legalException ::
  "('q, 'd, 'f) lib \<Rightarrow> ArithOp \<Rightarrow> 'q Operand \<Rightarrow> 'q Operand \<Rightarrow> jpError option" where
  "legalException L OpMultiply (Quantity q) (Scalar v) = parseFailure L v"
| "legalException L OpMultiply (Scalar v) (Quantity q) = parseFailure L v"
| "legalException L OpDivide a (Scalar v) =
     (if v = Fin 0 then Some (formatError zeroDivisionError divide_fn [])
      else if tagOf a = TQuantity then parseFailure L v
      else None)"
| "legalException L OpDivide a (Quantity q) =
     (if AsApproximateFloat64 L q = Fin 0 then Some (formatError zeroDivisionError divide_fn [])
      else None)"
| "legalException L OpDivide a (Duration d) =
     (if Seconds L d = Fin 0 then Some (formatError zeroDivisionError divide_fn [])
      else None)"
| "legalException L OpModulo a (Duration d) =
     (if d = 0 then Some (formatError zeroDivisionError modulo_fn []) else None)"
| "legalException L OpModulo a b =
     (if whole L (moduloValue L a) \<and> whole L (moduloValue L b)
      then (if moduloValue L b = Fin 0 then Some (formatError zeroDivisionError modulo_fn [])
            else None)
      else Some (formatError nonIntModuloError modulo_fn []))"
| "legalException L oper a b = None"

text \<open>
  Of a float64: \<open>fractional\<close> says that it is finite with a fractional part.
  \<open>float64Value\<close> states what the theorems below need of a value being a float64: a
  finite value without a fractional part is a representable integer, and a finite
  value with a fractional part is below \<open>2 ^ 52\<close> in magnitude (it has 53 significant
  bits).
\<close>

definition fractional :: "float64 \<Rightarrow> bool" where
  "fractional x = (case x of Fin r \<Rightarrow> \<not> is_int r | _ \<Rightarrow> False)"

definition float64Value :: "float64 \<Rightarrow> bool" where
  "float64Value x =
     (case x of
        Fin r \<Rightarrow> if is_int r then exactInt \<lfloor>r\<rfloor> else \<bar>r\<bar> < 2 ^ 52
      | _ \<Rightarrow> True)"

subsection \<open>A small library for running the arithmetic\<close>

text \<open>
  The rounding of an integer to float64: to 53 significant bits, to the nearest such
  integer and to the even one of two that are equally near. \<open>excess n\<close> is the number
  of bits of \<open>n\<close> beyond 53.
\<close>

function excess :: "nat \<Rightarrow> nat" where
  "excess n = (if n < 2 ^ 53 then 0 else Suc (excess (n div 2)))"
  by pat_completeness auto
termination
  by (relation "measure (\<lambda>n. n)") auto

declare excess.simps [simp del]

definition roundNat :: "nat \<Rightarrow> nat" where
  "roundNat n =
     (if 2 ^ excess n < 2 * (n mod 2 ^ excess n)
         \<or> (2 * (n mod 2 ^ excess n) = 2 ^ excess n \<and> odd (n div 2 ^ excess n))
      then (n div 2 ^ excess n + 1) * 2 ^ excess n
      else (n div 2 ^ excess n) * 2 ^ excess n)"

definition roundInt :: "int \<Rightarrow> int" where
  "roundInt i = (if i < 0 then - int (roundNat (nat (- i))) else int (roundNat (nat i)))"

text \<open>
  In \<open>exampleLib\<close> a quantity is a rational number without a format and a decimal is a
  rational number of scale 0; strings of digits parse as quantities and strings of
  digits followed by \<open>s\<close> as durations in seconds. An integer is rounded to float64 by
  \<open>roundInt\<close> (all the integers below use fewer than 1024 bits), and a number with a
  fractional part is taken as it is: the examples use halves of small integers, which
  are float64 values. The conversion of a float64 out of the range of int64 gives the
  least int64, as on amd64.
\<close>

definition roundExample :: "rat \<Rightarrow> float64" where
  "roundExample r = (if is_int r then Fin (of_int (roundInt \<lfloor>r\<rfloor>)) else Fin r)"

fun digitsValue :: "string \<Rightarrow> nat \<Rightarrow> nat option" where
  "digitsValue [] acc = Some acc"
| "digitsValue (c # cs) acc =
     (if CHR ''0'' \<le> c \<and> c \<le> CHR ''9''
      then digitsValue cs (10 * acc + (of_char c - 48))
      else None)"

definition exampleLib :: "(rat, rat, unit) lib" where
  "exampleLib =
     \<lparr>round64 = roundExample,
      convOutOfRange = (\<lambda>x. word_of_int (- (2 ^ 63))),
      ParseQuantity = (\<lambda>s.
         case (if s = [] then None else digitsValue s 0) of
           Some n \<Rightarrow> Inr (of_nat n)
         | None \<Rightarrow> Inl ''quantities must match the regular expression''),
      ParseDuration = (\<lambda>s.
         case (if length s < 2 \<or> last s \<noteq> CHR ''s'' then None else digitsValue (butlast s) 0) of
           Some n \<Rightarrow> Inr (word_of_nat (n * 1000000000))
         | None \<Rightarrow> Inl ''time: invalid duration''),
      Sprintf_v = (\<lambda>x.
         case x of
           Fin r \<Rightarrow> (if is_int r \<and> 0 \<le> r then itoa (nat \<lfloor>r\<rfloor>) else ''?'')
         | _ \<Rightarrow> ''NaN''),
      QuantityAdd = (\<lambda>a b. a + b),
      QuantitySub = (\<lambda>a b. a - b),
      QuantityString = (\<lambda>q.
         if \<not> is_int q then ''?''
         else if q < 0 then ''-'' @ itoa (nat \<lfloor>- q\<rfloor>) else itoa (nat \<lfloor>q\<rfloor>)),
      DurationString = (\<lambda>d. itoa (nat (sint d)) @ ''ns''),
      AsDec = (\<lambda>q. q),
      Format = (\<lambda>q. ()),
      DecMul = (\<lambda>a b. a * b),
      DecScale = (\<lambda>d. 0),
      DecQuoRoundDown = (\<lambda>a b scale. of_int (trunc (a / b))),
      NewDecimalQuantity = (\<lambda>d f. d),
      NewQuantity = (\<lambda>i f. of_int (sint i)),
      AsApproximateFloat64 = roundExample,
      ToDec = (\<lambda>q. q)\<rparr>"

section \<open>Properties of the patcher\<close>

text \<open>
  Claim C2, as stated: a patch body that fails conversion yields a response with status
  Error. The code sets \<^verbatim>\<open>RuleStatusFail\<close>. The counterexample runs the patcher with a
  converter that rejects every patch text, on the resource \<open>[1]\<close> with the empty list as
  the empty document: the status is not Error.
\<close>

theorem C2_status_counterexample:
  "Status (fst (Patch (\<lambda>s. Inl ''invalid character'') (\<lambda>n ops r. (\<lparr>Name = n, Type = Mutation, Message = ops, Status = RuleStatusPass\<rparr>, r)) ([] :: nat list)
      \<lparr>ruleName = ''r1'', patches = ''{'', patchedResource = [1]\<rparr>)) \<noteq> RuleStatusError"
  by (simp add: Patch_def)

text \<open>
  Claim C2, amended: when conversion of the patch text fails with error \<open>err\<close>, the
  patcher returns a response named after the rule, of type Mutation, with status Fail
  and the conversion error as its message, together with the empty document (never
  the input document, whatever it was).
\<close>

theorem C2_patch_conversion_failure:
  assumes "conv (patches h) = Inl err"
  shows "Patch conv process emptyDoc h =
    (\<lparr>Name = ruleName h, Type = Mutation, Message = err, Status = RuleStatusFail\<rparr>, emptyDoc)"
  using assms by (simp add: Patch_def)

theorem C2_patch_conversion_failure_witness:
  "Patch (\<lambda>s. if s = ''{'' then Inl ''invalid character'' else Inr s)
      (\<lambda>n ops r. (\<lparr>Name = n, Type = Mutation, Message = ops, Status = RuleStatusPass\<rparr>, r))
      ([] :: nat list) \<lparr>ruleName = ''r1'', patches = ''{'', patchedResource = [1]\<rparr> =
    (\<lparr>Name = ''r1'', Type = Mutation, Message = ''invalid character'', Status = RuleStatusFail\<rparr>, [])"
  using C2_patch_conversion_failure
    [of "\<lambda>s. if s = ''{'' then Inl ''invalid character'' else Inr s"
        "\<lparr>ruleName = ''r1'', patches = ''{'', patchedResource = [1::nat]\<rparr>" "''invalid character''"
        "\<lambda>n ops r. (\<lparr>Name = n, Type = Mutation, Message = ops, Status = RuleStatusPass\<rparr>, r)" "[]"]
  by simp


section \<open>Properties of the validator\<close>

lemmas example_defs = exampleEnv_def exampleRule_def exampleForEach_def exampleResource_def
  newValidator_def newForEachValidator_def validate.simps validateForEach.simps
  validateElements.simps substitutePatterns_def validateResourceWithRule_def validatePatterns_def
  buildErrorMessage_def RulePass_def RuleSkip_def RuleError_def RuleResponse_def

subsection \<open>A rule without a validation body\<close>

text \<open>
  Claim C10: when context loading and the preconditions succeed and the rule's
  validation defines none of deny, pattern, anyPattern and forEach, \<^verbatim>\<open>validate\<close> returns
  no response (\<^verbatim>\<open>nil\<close>), not an Error response, and \<^verbatim>\<open>Process\<close> returns the resource
  with an empty response list.
\<close>

theorem C10_invalid_rule_shape_no_response:
  assumes "contextLoader E [] pc = Inr ctx"
    and "CheckPreconditions E ctx JNull = Inr True"
    and "ValidationDeny (RuleValidation r) = None"
    and "ValidationPattern (RuleValidation r) = JNull"
    and "ValidationAnyPattern (RuleValidation r) = JNull"
    and "ValidationForEach (RuleValidation r) = None"
  shows "validate E (newValidator pc r) = Return None
    \<and> Process E pc resource r = Return (resource, [])"
  using assms by (simp add: Process_def validate.simps newValidator_def RuleResponses_def)

theorem C10_invalid_rule_shape_no_response_witness:
  "validate exampleEnv (newValidator (JString ''pod'')
      \<lparr>RuleName = ''r1'', RuleValidation = \<lparr>ValidationMessage = ''m'', ValidationPattern = JNull,
         ValidationAnyPattern = JNull, ValidationDeny = None, ValidationForEach = None\<rparr>\<rparr>) = Return None
   \<and> Process exampleEnv (JString ''pod'') (JString ''pod'')
      \<lparr>RuleName = ''r1'', RuleValidation = \<lparr>ValidationMessage = ''m'', ValidationPattern = JNull,
         ValidationAnyPattern = JNull, ValidationDeny = None, ValidationForEach = None\<rparr>\<rparr>
     = Return (JString ''pod'', [])"
  using C10_invalid_rule_shape_no_response [of exampleEnv "JString ''pod''" "JString ''pod''"
      "\<lparr>RuleName = ''r1'', RuleValidation = \<lparr>ValidationMessage = ''m'', ValidationPattern = JNull,
         ValidationAnyPattern = JNull, ValidationDeny = None, ValidationForEach = None\<rparr>\<rparr>" "JString ''pod''"]
  by (simp add: exampleEnv_def)

subsection \<open>The loop over the for-each declarations\<close>

text \<open>
  Declarations that do not end the iteration only add their counts: the loop over a
  prefix of such declarations continues with the rest, and a loop over such
  declarations alone ends in Skip or Pass by the total.
\<close>

lemma validateForEachLoop_prefix:
  assumes "list_all (listPasses E v) xs"
  shows "validateForEachLoop E v (xs @ ys) a =
    validateForEachLoop E v ys (a + sum_list (map (appliedCount E v) xs))"
  using assms
proof (induction xs arbitrary: a)
  case Nil
  then show ?case by simp
next
  case (Cons fe fes)
  from Cons.prems have p: "listPasses E v fe" and ps: "list_all (listPasses E v) fes" by simp_all
  show ?case
  proof (cases "EvaluateList E (List fe) (policyContext v)")
    case (Inl err)
    then show ?thesis using Cons.IH [OF ps, of a] by (simp add: appliedCount_def)
  next
    case (Inr elements)
    with p obtain resp c
      where r: "validateElements E v fe elements (ElementScope fe) = Return (resp, c)"
        and st: "Status resp = RuleStatusPass"
      by (auto simp: listPasses_def split: outcome.splits)
    show ?thesis using Cons.IH [OF ps, of "a + c"] Inr r st
      by (simp add: appliedCount_def add.assoc)
  qed
qed

lemma validateForEachLoop_passes:
  assumes "list_all (listPasses E v) fes"
  shows "validateForEachLoop E v fes a =
    (if a + sum_list (map (appliedCount E v) fes) = 0
     then (if forEach v = None then Return None
           else Return (Some (RuleSkip (rule v) Validation ''rule skipped'')))
     else Return (Some (RulePass (rule v) Validation ''rule passed'')))"
  using validateForEachLoop_prefix [OF assms, of "[]" a] by simp

text \<open>
  Claim C7: for a validator with a for-each spec, when no declaration ends the
  iteration, the response after the last list is Skip if the applied total is zero
  and Pass otherwise.
\<close>

theorem C7_foreach_skip_or_pass:
  assumes "forEach v = Some fes" and "list_all (listPasses E v) fes"
  shows "validateForEach E v =
    Return (Some (if sum_list (map (appliedCount E v) fes) = 0
                  then RuleSkip (rule v) Validation ''rule skipped''
                  else RulePass (rule v) Validation ''rule passed''))"
  using assms validateForEachLoop_passes [of E v fes 0]
  by (simp add: validateForEach.simps)

text \<open>
  The witness runs \<open>exampleRule\<close> on a resource whose list is empty (zero applied
  elements, Skip) and on one whose list holds a passing element (Pass).
\<close>

theorem C7_foreach_skip_or_pass_witness:
  "validateForEach exampleEnv (newValidator (exampleResource []) exampleRule) =
     Return (Some \<lparr>Name = ''check-items'', Type = Validation, Message = ''rule skipped'',
                   Status = RuleStatusSkip\<rparr>)
   \<and> validateForEach exampleEnv (newValidator (exampleResource [JNumber (Fin 1)]) exampleRule) =
     Return (Some \<lparr>Name = ''check-items'', Type = Validation, Message = ''rule passed'',
                   Status = RuleStatusPass\<rparr>)"
  using C7_foreach_skip_or_pass
      [of "newValidator (exampleResource []) exampleRule" "[exampleForEach]" exampleEnv]
    C7_foreach_skip_or_pass
      [of "newValidator (exampleResource [JNumber (Fin 1)]) exampleRule" "[exampleForEach]" exampleEnv]
  by (simp add: listPasses_def appliedCount_def example_defs)

text \<open>
  The two examples that the claim gives for zero applied elements: a declaration whose
  list is empty, and one whose elements are all skipped, passes on with count zero;
  when this holds of every declaration, the response is Skip.
\<close>

lemma validateElementsLoop_skipped:
  assumes "\<forall>k<length xs. elementSkipped E v fe sc (i + k) (xs ! k)"
  shows "validateElementsLoop E v fe sc n i xs a = Return (RulePass (rule v) Validation '''', a)"
  using assms
proof (induction xs arbitrary: i)
  case Nil
  show ?case by simp
next
  case (Cons x xs)
  from Cons.prems have x: "elementSkipped E v fe sc i x"
    by (metis add.right_neutral length_greater_0_conv list.discI nth_Cons_0)
  have "\<forall>k<length xs. elementSkipped E v fe sc (i + 1 + k) (xs ! k)"
  proof (intro allI impI)
    fix k assume "k < length xs"
    then have "elementSkipped E v fe sc (i + Suc k) ((x # xs) ! Suc k)"
      using Cons.prems by (metis Suc_less_eq length_Cons)
    then show "elementSkipped E v fe sc (i + 1 + k) (xs ! k)" by simp
  qed
  then have r: "validateElementsLoop E v fe sc n (i + 1) xs a =
      Return (RulePass (rule v) Validation '''', a)"
    by (rule Cons.IH)
  from x r show ?case
    by (auto simp: elementSkipped_def split: if_splits sum.splits outcome.splits option.splits)
qed

lemma all_elements_skipped:
  assumes "forEach v = Some fes"
    and "\<forall>fe\<in>set fes. \<exists>xs. EvaluateList E (List fe) (policyContext v) = Inr xs
           \<and> (\<forall>k<length xs. elementSkipped E v fe (ElementScope fe) k (xs ! k))"
  shows "validateForEach E v = Return (Some (RuleSkip (rule v) Validation ''rule skipped''))"
proof -
  have each: "listPasses E v fe \<and> appliedCount E v fe = 0" if "fe \<in> set fes" for fe
  proof -
    from assms(2) that obtain xs where xs: "EvaluateList E (List fe) (policyContext v) = Inr xs"
      and sk: "\<forall>k<length xs. elementSkipped E v fe (ElementScope fe) (0 + k) (xs ! k)"
      by auto
    have "validateElements E v fe xs (ElementScope fe) =
        Return (RulePass (rule v) Validation '''', 0)"
      using validateElementsLoop_skipped [OF sk] by (simp add: validateElements.simps)
    with xs show ?thesis
      by (simp add: listPasses_def appliedCount_def RulePass_def RuleResponse_def)
  qed
  then have "list_all (listPasses E v) fes" and "sum_list (map (appliedCount E v) fes) = 0"
    by (simp_all add: list_all_iff)
  then show ?thesis
    using assms(1) validateForEachLoop_passes [of E v fes 0] by (simp add: validateForEach.simps)
qed

subsection \<open>An element whose validation ends in Error\<close>

lemma validateElementsLoop_append:
  "validateElementsLoop E v fe sc n i (xs @ ys) a =
     (case validateElementsLoop E v fe sc n i xs a of
        Panic p \<Rightarrow> Panic p
      | Return (resp, c) \<Rightarrow>
          if Status resp = RuleStatusPass then validateElementsLoop E v fe sc n (i + length xs) ys c
          else Return (resp, c))"
proof (induction xs arbitrary: i a)
  case Nil
  show ?case by (simp add: RulePass_def RuleResponse_def)
next
  case (Cons x xs)
  show ?case
    by (simp add: Cons.IH RuleError_def RuleResponse_def
        split: sum.splits outcome.splits option.splits)
qed

lemma validateElementsLoop_error_step:
  assumes "element \<noteq> JNull"
    and "AddElementToContext E (policyContext v) element i (nesting v) sc = Inr pc"
    and "newForEachValidator E foreach (nesting v + 1) (rule v) pc = Inr fv"
    and "validate E fv = Return (Some r)" and "Status r = RuleStatusError"
  shows "validateElementsLoop E v foreach sc n i (element # post) c =
    (if int i < int n - 1 then validateElementsLoop E v foreach sc n (i + 1) post c
     else Return (RuleResponse (rule v) Validation (''validation failure: '' @ Message r)
                    RuleStatusError, c))"
  using assms by simp

text \<open>
  Claim C1, as stated: an Error on the last element gives the rule the status Fail.
  The code passes the element's own status on. In the counterexample the list of
  \<open>exampleRule\<close> has the single element \<open>''x''\<close>; the nested validator answers with
  status Error, and the for-each answers with status Error, not Fail.
\<close>

theorem C1_last_error_status_counterexample:
  "(case newForEachValidator exampleEnv exampleForEach 1 exampleRule (JString ''x'') of
      Inr fv \<Rightarrow>
        (case validate exampleEnv fv of
           Return (Some r) \<Rightarrow> Status r = RuleStatusError
         | _ \<Rightarrow> False)
    | Inl err \<Rightarrow> False)
   \<and> (case validateForEach exampleEnv (newValidator (exampleResource [JString ''x'']) exampleRule) of
        Return (Some resp) \<Rightarrow> Status resp = RuleStatusError \<and> Status resp \<noteq> RuleStatusFail
      | _ \<Rightarrow> False)"
  by (simp add: example_defs)

text \<open>
  Claim C1, amended. Let an element of the list be non-null, let the elements before
  it leave the loop running with the count \<open>c\<close>, and let its nested validation return
  a response \<open>r\<close> with status Error. If it is not the last element of the list, the
  loop continues with the next element and the same count. If it is the last
  element, \<^verbatim>\<open>validateElements\<close> returns a response with status Error whose message is
  \<open>validation failure:\<close> followed by the message of \<open>r\<close>, and (when the declarations
  before this one did not end the iteration) that response is the response of
  \<^verbatim>\<open>validateForEach\<close>.
\<close>

theorem C1_foreach_element_error:
  assumes "elements = pre @ element # post"
    and "validateElementsLoop E v foreach (ElementScope foreach) (length elements) 0 pre 0
           = Return (respPre, c)"
    and "Status respPre = RuleStatusPass"
    and "element \<noteq> JNull"
    and "AddElementToContext E (policyContext v) element (length pre) (nesting v)
           (ElementScope foreach) = Inr pc"
    and "newForEachValidator E foreach (nesting v + 1) (rule v) pc = Inr fv"
    and "validate E fv = Return (Some r)" and "Status r = RuleStatusError"
    and "forEach v = Some (before @ foreach # after)"
    and "list_all (listPasses E v) before"
    and "EvaluateList E (List foreach) (policyContext v) = Inr elements"
  shows "validateElements E v foreach elements (ElementScope foreach) =
      (if post \<noteq> []
       then validateElementsLoop E v foreach (ElementScope foreach) (length elements)
              (length pre + 1) post c
       else Return (RuleResponse (rule v) Validation (''validation failure: '' @ Message r)
                      RuleStatusError, c))
    \<and> (post = [] \<longrightarrow>
         validateForEach E v =
           Return (Some (RuleResponse (rule v) Validation (''validation failure: '' @ Message r)
                           RuleStatusError)))"
proof -
  let ?err = "RuleResponse (rule v) Validation (''validation failure: '' @ Message r) RuleStatusError"
  have step: "validateElementsLoop E v foreach (ElementScope foreach) (length elements) (length pre)
       (element # post) c =
    (if int (length pre) < int (length elements) - 1
     then validateElementsLoop E v foreach (ElementScope foreach) (length elements)
            (length pre + 1) post c
     else Return (?err, c))"
    using assms(4-8) by (rule validateElementsLoop_error_step)
  have last: "int (length pre) < int (length elements) - 1 \<longleftrightarrow> post \<noteq> []"
    using assms(1) by (cases post) simp_all
  have els: "validateElements E v foreach elements (ElementScope foreach) =
      (if post \<noteq> []
       then validateElementsLoop E v foreach (ElementScope foreach) (length elements)
              (length pre + 1) post c
       else Return (?err, c))"
    unfolding validateElements.simps
    by (subst assms(1), subst validateElementsLoop_append)
      (simp add: assms(2,3) step last del: validateElementsLoop.simps)
  have agg: "validateForEach E v = Return (Some ?err)" if "post = []"
  proof -
    have "validateForEach E v =
        validateForEachLoop E v (foreach # after) (0 + sum_list (map (appliedCount E v) before))"
      by (simp add: validateForEach.simps assms(9) validateForEachLoop_prefix [OF assms(10)])
    also have "\<dots> = Return (Some ?err)"
      using els that assms(11) by (simp add: RuleResponse_def del: validateElementsLoop.simps)
    finally show ?thesis .
  qed
  from els agg show ?thesis by blast
qed

text \<open>
  The witness uses the theorem twice on \<open>exampleRule\<close>: on the list \<open>[''x'']\<close>, where the
  failing element is the last one, and on the list \<open>[''x'', 1]\<close>, where it is not and the
  second element passes.
\<close>

theorem C1_foreach_element_error_witness:
  "validateElements exampleEnv (newValidator (exampleResource [JString ''x'']) exampleRule)
       exampleForEach [JString ''x''] None =
     Return (\<lparr>Name = ''check-items'', Type = Validation,
              Message = ''validation failure: validation error: rule check-items execution error: type mismatch'',
              Status = RuleStatusError\<rparr>, 0)
   \<and> validateForEach exampleEnv (newValidator (exampleResource [JString ''x'']) exampleRule) =
     Return (Some \<lparr>Name = ''check-items'', Type = Validation,
              Message = ''validation failure: validation error: rule check-items execution error: type mismatch'',
              Status = RuleStatusError\<rparr>)
   \<and> validateElements exampleEnv
       (newValidator (exampleResource [JString ''x'', JNumber (Fin 1)]) exampleRule)
       exampleForEach [JString ''x'', JNumber (Fin 1)] None =
     Return (\<lparr>Name = ''check-items'', Type = Validation, Message = '''', Status = RuleStatusPass\<rparr>, 1)"
  using C1_foreach_element_error
      [where E = exampleEnv and v = "newValidator (exampleResource [JString ''x'']) exampleRule"
         and foreach = exampleForEach and elements = "[JString ''x'']" and pre = "[]"
         and element = "JString ''x''" and post = "[]"
         and respPre = "RulePass exampleRule Validation ''''" and c = 0 and pc = "JString ''x''"
         and fv = "\<lparr>rule = exampleRule, policyContext = JString ''x'', contextEntries = [],
                    anyAllConditions = JNull, pattern = JNumber (Fin 1), anyPattern = JNull,
                    deny = None, forEach = None, nesting = 1\<rparr>"
         and r = "\<lparr>Name = ''check-items'', Type = Validation,
                   Message = ''validation error: rule check-items execution error: type mismatch'',
                   Status = RuleStatusError\<rparr>"
         and before = "[]" and after = "[]"]
    C1_foreach_element_error
      [where E = exampleEnv
         and v = "newValidator (exampleResource [JString ''x'', JNumber (Fin 1)]) exampleRule"
         and foreach = exampleForEach and elements = "[JString ''x'', JNumber (Fin 1)]" and pre = "[]"
         and element = "JString ''x''" and post = "[JNumber (Fin 1)]"
         and respPre = "RulePass exampleRule Validation ''''" and c = 0 and pc = "JString ''x''"
         and fv = "\<lparr>rule = exampleRule, policyContext = JString ''x'', contextEntries = [],
                    anyAllConditions = JNull, pattern = JNumber (Fin 1), anyPattern = JNull,
                    deny = None, forEach = None, nesting = 1\<rparr>"
         and r = "\<lparr>Name = ''check-items'', Type = Validation,
                   Message = ''validation error: rule check-items execution error: type mismatch'',
                   Status = RuleStatusError\<rparr>"
         and before = "[]" and after = "[]"]
  by (simp add: example_defs)


subsection \<open>Any-pattern validation\<close>

text \<open>
  The loop over the candidates either returns at the first candidate that matches or
  runs to the end and hands back the reasons of the failed and of the skipped
  candidates, each list in the order of the candidates.
\<close>

lemma anyPatternsLoop_first_match:
  assumes "\<forall>q\<in>set pre. \<not> matches E resource q" and "matches E resource p"
  shows "anyPatternsLoop E r resource idx (pre @ p # post) F S =
    Inl (RulePass r Validation
          (''validation rule '' @ [CHR 0x27] @ RuleName r @ [CHR 0x27] @ '' anyPattern[''
           @ itoa (idx + length pre) @ ''] passed.''))"
  using assms
proof (induction pre arbitrary: idx F S)
  case Nil
  then show ?case by (simp add: matches_def)
next
  case (Cons q pre)
  then show ?case
    by (cases "MatchPattern E resource q") (auto simp: matches_def split: MatchError.splits)
qed

lemma anyPatternsLoop_no_match:
  assumes "\<forall>q\<in>set ps. \<not> matches E resource q"
  shows "anyPatternsLoop E r resource idx ps F S =
    Inr (F @ failureReasons E r resource idx ps, S @ skipReasons E r resource idx ps)"
  using assms
proof (induction ps arbitrary: idx F S)
  case Nil
  then show ?case by simp
next
  case (Cons q ps)
  then show ?case
    by (cases "MatchPattern E resource q")
       (auto simp: matches_def split: MatchError.splits bool.splits)
qed

lemma failureReasons_Nil_iff:
  "failureReasons E r resource idx ps = [] \<longleftrightarrow> (\<forall>q\<in>set ps. \<not> failsOutright E resource q)"
  by (induction ps arbitrary: idx)
     (auto simp: failsOutright_def split: option.splits MatchError.splits bool.splits)

lemma skipReasons_Nil_iff:
  "skipReasons E r resource idx ps = [] \<longleftrightarrow> (\<forall>q\<in>set ps. \<not> skipWorthy E resource q)"
  by (induction ps arbitrary: idx)
     (auto simp: skipWorthy_def split: option.splits MatchError.splits bool.splits)

lemma skipWorthy_not: "skipWorthy E resource q \<Longrightarrow> \<not> failsOutright E resource q \<and> \<not> matches E resource q"
  by (auto simp: skipWorthy_def failsOutright_def matches_def split: option.splits MatchError.splits)

lemma Join_concatenated: "Join xs '' '' = concatenated xs"
proof (induction xs "'' ''" rule: Join.induct)
  case 1
  show ?case by (simp add: concatenated_def)
next
  case (2 x)
  show ?case by (simp add: concatenated_def)
next
  case (3 x y ys)
  then show ?case by (simp add: concatenated_def)
qed

lemma HasSuffix_dot: "HasSuffix s ''.'' \<longleftrightarrow> s \<noteq> [] \<and> last s = CHR ''.''"
proof (cases s rule: rev_cases)
  case Nil
  then show ?thesis by (simp add: HasSuffix_def)
next
  case (snoc ys y)
  then show ?thesis by (auto simp: HasSuffix_def)
qed

lemma deserializeAnyPattern_array:
  "marshalError (JArray pats) = None \<Longrightarrow> deserializeAnyPattern (JArray pats) = Inr pats"
  by (simp add: deserializeAnyPattern_def)

lemma deserializeAnyPattern_unsupported:
  "marshalError ap = Some err \<Longrightarrow> deserializeAnyPattern ap = Inl err"
  by (cases ap) (auto simp: deserializeAnyPattern_def)

text \<open>
  Claim C6: for a validator with an any-pattern (and no pattern) whose candidates can be
  encoded as JSON, the candidates are tried in order. The first candidate that matches
  yields the response with status Pass whose message names the candidate's index. If no
  candidate matches and at least one failed outright, the response has status Fail and
  its message is \<^verbatim>\<open>validation error: \<close>, then the rule's message if it has one (closed by
  a full stop if it does not end in one, and a space), then the failure reasons of all
  the candidates that failed outright, in the order of the candidates and separated by
  single spaces. If there are candidates and every one of them is skip-worthy, the
  response has status Skip and its message is the skip reasons of all the candidates,
  in their order and separated by single spaces.
\<close>

theorem C6_anyPattern_verdict:
  assumes "pattern v = JNull" and "anyPattern v = JArray pats"
    and "marshalError (JArray pats) = None"
  shows "(pats = pre @ p # post \<and> (\<forall>q\<in>set pre. \<not> matches E resource q) \<and> matches E resource p \<longrightarrow>
       validatePatterns E v resource =
         Return (Some \<lparr>Name = RuleName (rule v), Type = Validation,
           Message = ''validation rule '' @ [CHR 0x27] @ RuleName (rule v) @ [CHR 0x27]
             @ '' anyPattern['' @ itoa (length pre) @ ''] passed.'',
           Status = RuleStatusPass\<rparr>))
    \<and> ((\<forall>q\<in>set pats. \<not> matches E resource q) \<and> (\<exists>q\<in>set pats. failsOutright E resource q) \<longrightarrow>
       validatePatterns E v resource =
         Return (Some \<lparr>Name = RuleName (rule v), Type = Validation,
           Message = ''validation error: ''
             @ (if ValidationMessage (RuleValidation (rule v)) = '''' then ''''
                else if last (ValidationMessage (RuleValidation (rule v))) = CHR ''.''
                  then ValidationMessage (RuleValidation (rule v)) @ '' ''
                else ValidationMessage (RuleValidation (rule v)) @ ''. '')
             @ concatenated (failureReasons E (rule v) resource 0 pats),
           Status = RuleStatusFail\<rparr>))
    \<and> (pats \<noteq> [] \<and> (\<forall>q\<in>set pats. skipWorthy E resource q) \<longrightarrow>
       validatePatterns E v resource =
         Return (Some \<lparr>Name = RuleName (rule v), Type = Validation,
           Message = concatenated (skipReasons E (rule v) resource 0 pats),
           Status = RuleStatusSkip\<rparr>))"
proof (intro conjI impI)
  have d: "deserializeAnyPattern (anyPattern v) = Inr pats"
    using assms by (simp add: deserializeAnyPattern_array)
  {
    assume a: "pats = pre @ p # post \<and> (\<forall>q\<in>set pre. \<not> matches E resource q) \<and> matches E resource p"
    then show "validatePatterns E v resource =
         Return (Some \<lparr>Name = RuleName (rule v), Type = Validation,
           Message = ''validation rule '' @ [CHR 0x27] @ RuleName (rule v) @ [CHR 0x27]
             @ '' anyPattern['' @ itoa (length pre) @ ''] passed.'',
           Status = RuleStatusPass\<rparr>)"
      using assms(1,2) d anyPatternsLoop_first_match [of pre E resource p "rule v" 0 post "[]" "[]"]
      by (simp add: validatePatterns_def RulePass_def RuleResponse_def)
  next
    assume a: "(\<forall>q\<in>set pats. \<not> matches E resource q) \<and> (\<exists>q\<in>set pats. failsOutright E resource q)"
    then have "failureReasons E (rule v) resource 0 pats \<noteq> []"
      by (simp add: failureReasons_Nil_iff)
    then show "validatePatterns E v resource =
         Return (Some \<lparr>Name = RuleName (rule v), Type = Validation,
           Message = ''validation error: ''
             @ (if ValidationMessage (RuleValidation (rule v)) = '''' then ''''
                else if last (ValidationMessage (RuleValidation (rule v))) = CHR ''.''
                  then ValidationMessage (RuleValidation (rule v)) @ '' ''
                else ValidationMessage (RuleValidation (rule v)) @ ''. '')
             @ concatenated (failureReasons E (rule v) resource 0 pats),
           Status = RuleStatusFail\<rparr>)"
      using a assms(1,2) d anyPatternsLoop_no_match [of pats E resource "rule v" 0 "[]" "[]"]
      by (simp add: validatePatterns_def RuleResponse_def buildAnyPatternErrorMessage_def
          Join_concatenated HasSuffix_dot)
  next
    assume a: "pats \<noteq> [] \<and> (\<forall>q\<in>set pats. skipWorthy E resource q)"
    then have nm: "\<forall>q\<in>set pats. \<not> matches E resource q"
      and nf: "\<forall>q\<in>set pats. \<not> failsOutright E resource q"
      using skipWorthy_not by blast+
    from a obtain q where "q \<in> set pats" "skipWorthy E resource q" by (cases pats) auto
    then have "skipReasons E (rule v) resource 0 pats \<noteq> []"
      by (auto simp: skipReasons_Nil_iff)
    moreover have "failureReasons E (rule v) resource 0 pats = []"
      using nf by (simp add: failureReasons_Nil_iff)
    ultimately show "validatePatterns E v resource =
         Return (Some \<lparr>Name = RuleName (rule v), Type = Validation,
           Message = concatenated (skipReasons E (rule v) resource 0 pats),
           Status = RuleStatusSkip\<rparr>)"
      using assms(1,2) d anyPatternsLoop_no_match [OF nm, of "rule v" 0 "[]" "[]"]
      by (simp add: validatePatterns_def RuleSkip_def RuleResponse_def Join_concatenated)
  }
qed

text \<open>
  The witness runs four any-patterns against the resource \<open>''a''\<close> in \<open>exampleEnv\<close>: the
  second candidate matches; both candidates fail, under a rule without a message and
  under a rule with the message \<open>''no''\<close>; both candidates are skipped.
\<close>

theorem C6_anyPattern_verdict_witness:
  "validatePatterns exampleEnv (anyPatternValidator ''r'' '''' [JString ''b'', JString ''a''])
       (JString ''a'') =
     Return (Some \<lparr>Name = ''r'', Type = Validation,
       Message = ''validation rule '' @ [CHR 0x27] @ ''r'' @ [CHR 0x27] @ '' anyPattern[1] passed.'',
       Status = RuleStatusPass\<rparr>)
   \<and> validatePatterns exampleEnv (anyPatternValidator ''r'' '''' [JString ''b'', JNumber (Fin 2)])
       (JString ''a'') =
     Return (Some \<lparr>Name = ''r'', Type = Validation,
       Message = ''validation error: rule r[0] failed at path / rule r[1] failed: type mismatch'',
       Status = RuleStatusFail\<rparr>)
   \<and> validatePatterns exampleEnv (anyPatternValidator ''r'' ''no'' [JString ''b'', JNumber (Fin 2)])
       (JString ''a'') =
     Return (Some \<lparr>Name = ''r'', Type = Validation,
       Message = ''validation error: no. rule r[0] failed at path / rule r[1] failed: type mismatch'',
       Status = RuleStatusFail\<rparr>)
   \<and> validatePatterns exampleEnv (anyPatternValidator ''r'' '''' [JString ''?()'', JString ''?()''])
       (JString ''a'') =
     Return (Some \<lparr>Name = ''r'', Type = Validation,
       Message = ''rule r[0] skipped: anchor not present rule r[1] skipped: anchor not present'',
       Status = RuleStatusSkip\<rparr>)"
  using
    C6_anyPattern_verdict [where v = "anyPatternValidator ''r'' '''' [JString ''b'', JString ''a'']"
      and pats = "[JString ''b'', JString ''a'']" and E = exampleEnv and resource = "JString ''a''"
      and pre = "[JString ''b'']" and p = "JString ''a''" and post = "[]"]
    C6_anyPattern_verdict [where v = "anyPatternValidator ''r'' '''' [JString ''b'', JNumber (Fin 2)]"
      and pats = "[JString ''b'', JNumber (Fin 2)]" and E = exampleEnv and resource = "JString ''a''"
      and pre = "[]" and p = "JNull" and post = "[]"]
    C6_anyPattern_verdict [where v = "anyPatternValidator ''r'' ''no'' [JString ''b'', JNumber (Fin 2)]"
      and pats = "[JString ''b'', JNumber (Fin 2)]" and E = exampleEnv and resource = "JString ''a''"
      and pre = "[]" and p = "JNull" and post = "[]"]
    C6_anyPattern_verdict [where v = "anyPatternValidator ''r'' '''' [JString ''?()'', JString ''?()'']"
      and pats = "[JString ''?()'', JString ''?()'']" and E = exampleEnv and resource = "JString ''a''"
      and pre = "[]" and p = "JNull" and post = "[]"]
  by (simp add: anyPatternValidator_def exampleEnv_def matches_def failsOutright_def skipWorthy_def
      concatenated_def itoa.simps)

text \<open>
  An any-pattern that cannot be encoded (it holds a number that is not finite) or that
  is not an array gives the Error response of the failed deserialization.
\<close>

lemma anyPattern_not_deserialized:
  "validatePatterns exampleEnv
       ((anyPatternValidator ''r'' '''' []) \<lparr>anyPattern := JArray [JString ''a'', JNumber PInf]\<rparr>)
       (JString ''a'') =
     Return (Some \<lparr>Name = ''r'', Type = Validation,
       Message = ''failed to deserialize anyPattern, expected type array: json: unsupported value: +Inf'',
       Status = RuleStatusError\<rparr>)
   \<and> validatePatterns exampleEnv
       ((anyPatternValidator ''r'' '''' []) \<lparr>anyPattern := JObject [(''a'', JString ''a'')]\<rparr>)
       (JString ''a'') =
     Return (Some \<lparr>Name = ''r'', Type = Validation,
       Message = ''failed to deserialize anyPattern, expected type array: ''
         @ ''json: cannot unmarshal object into Go value of type []interface {}'',
       Status = RuleStatusError\<rparr>)"
  by (simp add: validatePatterns_def deserializeAnyPattern_def anyPatternValidator_def
      RuleError_def RuleResponse_def)


section \<open>Properties of the image verification loop\<close>

text \<open>
  Once the applied count is positive after a rule, the loop in mode One ends there,
  whatever rules follow; and the rules handed to the handler are always an initial
  segment of the rule list.
\<close>

lemma rulesLoop_stop:
  assumes "RulesAppliedCount (policyResponse (rulesLoop e ApplyOne (pre @ [r]) st)) > 0"
  shows "rulesLoop e ApplyOne (pre @ r # post) st = rulesLoop e ApplyOne (pre @ [r]) st"
  using assms
proof (induction pre arbitrary: st)
  case Nil
  then show ?case by (simp split: if_splits)
next
  case (Cons q pre)
  then show ?case by (simp split: if_splits)
qed

lemma invoked_ruleStep: "invoked (ruleStep e r st) = invoked st @ [r]"
  by (simp add: ruleStep_def split: prod.splits)

lemma rulesLoop_invoked_prefix:
  "\<exists>k\<le>length rules. invoked (rulesLoop e m rules st) = invoked st @ take k rules"
proof (induction rules arbitrary: st)
  case Nil
  show ?case by simp
next
  case (Cons r rules)
  show ?case
  proof (cases "m = ApplyOne \<and> RulesAppliedCount (policyResponse (ruleStep e r st)) > 0")
    case True
    then have "invoked (rulesLoop e m (r # rules) st) = invoked st @ take 1 (r # rules)"
      by (simp add: invoked_ruleStep)
    then show ?thesis by (intro exI [of _ 1]) simp
  next
    case False
    from Cons.IH [of "ruleStep e r st"] obtain k where "k \<le> length rules"
      and "invoked (rulesLoop e m rules (ruleStep e r st)) = invoked (ruleStep e r st) @ take k rules"
      by blast
    with False have "invoked (rulesLoop e m (r # rules) st) = invoked st @ take (Suc k) (r # rules)"
      by (auto simp add: invoked_ruleStep)
    with \<open>k \<le> length rules\<close> show ?thesis by (intro exI [of _ "Suc k"]) simp
  qed
qed

text \<open>
  Claim C9: in apply-rules mode One, when the applied count of the policy response
  is positive after the rule \<open>r\<close> (the rules of the policy being \<open>pre\<close>, then \<open>r\<close>, then
  \<open>post\<close>), the rules handed to \<^verbatim>\<open>invokeRuleHandler\<close> are an initial segment of \<open>pre\<close> followed
  by \<open>r\<close>: no rule of \<open>post\<close> is invoked.
\<close>

theorem C9_apply_one_stops:
  assumes "GetApplyRules e (Policy e pc) = ApplyOne"
    and "ComputeRules e (Policy e pc) = pre @ r # post"
    and "RulesAppliedCount (policyResponse (rulesLoop e ApplyOne (pre @ [r])
           \<lparr>policyResponse = NewPolicyResponse, matchedResource = MatchedResource e pc, ivm = m,
            policyCtx = pc, invoked = []\<rparr>)) > 0"
  shows "\<exists>k\<le>length pre + 1.
           invoked (verifyAndPatchImagesRun e m pc) = take k (pre @ [r])"
proof -
  let ?st = "\<lparr>policyResponse = NewPolicyResponse, matchedResource = MatchedResource e pc, ivm = m,
            policyCtx = pc, invoked = []\<rparr>"
  have "verifyAndPatchImagesRun e m pc = rulesLoop e ApplyOne (pre @ [r]) ?st"
    using assms rulesLoop_stop [of e pre r ?st post] by (simp add: verifyAndPatchImagesRun_def)
  moreover obtain k where "k \<le> length (pre @ [r])"
    and "invoked (rulesLoop e ApplyOne (pre @ [r]) ?st) = invoked ?st @ take k (pre @ [r])"
    using rulesLoop_invoked_prefix [of "pre @ [r]" e ApplyOne ?st] by blast
  ultimately have "k \<le> length pre + 1"
    and "invoked (verifyAndPatchImagesRun e m pc) = take k (pre @ [r])"
    by simp_all
  then show ?thesis by blast
qed

text \<open>
  The witness: of the rules \<open>skip\<close>, \<open>a\<close>, \<open>b\<close>, \<open>c\<close> the first returns no response and the
  second a counted one, so \<open>b\<close> and \<open>c\<close> are not invoked.
\<close>

theorem C9_apply_one_stops_witness:
  "invoked (verifyAndPatchImagesRun exampleEngine 0
      (ApplyOne, [namedRule ''skip'', namedRule ''a'', namedRule ''b'', namedRule ''c'']))
   = [namedRule ''skip'', namedRule ''a'']"
proof -
  obtain k where "k \<le> length [namedRule ''skip''] + 1"
    and "invoked (verifyAndPatchImagesRun exampleEngine 0
      (ApplyOne, [namedRule ''skip'', namedRule ''a'', namedRule ''b'', namedRule ''c'']))
     = take k ([namedRule ''skip''] @ [namedRule ''a''])"
    using C9_apply_one_stops [of exampleEngine
        "(ApplyOne, [namedRule ''skip'', namedRule ''a'', namedRule ''b'', namedRule ''c''])"
        "[namedRule ''skip'']" "namedRule ''a''" "[namedRule ''b'', namedRule ''c'']" 0]
    by (auto simp: exampleEngine_def namedRule_def ruleStep_def handlerFactory_def
        NewPolicyResponse_def RulePass_def RuleResponse_def)
  then show ?thesis
    by (simp add: verifyAndPatchImagesRun_def exampleEngine_def namedRule_def ruleStep_def
        handlerFactory_def NewPolicyResponse_def RulePass_def RuleResponse_def)
qed


section \<open>Properties of the expression functions\<close>

subsection \<open>items\<close>

text \<open>
  A Go map has each key once, so an object is an association list with distinct keys.
  Sorting the keys of such a list gives the sorted list of the key set.
\<close>

lemma sort_keys:
  assumes "distinct (map fst input)"
  shows "sort (map fst input) = sorted_list_of_set (dom (map_of input))"
proof -
  have "sorted_list_of_set (dom (map_of input)) = sort (remdups (map fst input))"
    by (simp add: dom_map_of_conv_image_fst sorted_list_of_set_sort_remdups flip: set_map)
  with assms show ?thesis by (simp add: distinct_remdups_id)
qed

text \<open>
  Claim C8: for a map input, \<^verbatim>\<open>items\<close> returns one object per entry of the map, in the
  lexicographic order of the keys; the object of the entry with key \<open>k\<close> and value \<open>v\<close>
  holds the string \<open>k\<close> under the key name and \<open>v\<close> under the value name (when the two
  names are the same name, the object has that one name and holds \<open>v\<close>). The result is
  a function of the map the association list represents: two lists for the same map
  (two iteration orders) give the same result.
\<close>

theorem C8_items_sorted_deterministic:
  assumes "distinct (map fst input)"
  shows "jpItems [JObject input, JString keyName, JString valName] =
      Return (Inr (JArray
        (map (\<lambda>k. JObject (if keyName = valName then [(valName, the (map_of input k))]
                             else [(keyName, JString k), (valName, the (map_of input k))]))
           (sorted_list_of_set (dom (map_of input))))))
    \<and> (distinct (map fst input') \<and> map_of input' = map_of input \<longrightarrow>
         jpItems [JObject input', JString keyName, JString valName] =
         jpItems [JObject input, JString keyName, JString valName])"
proof -
  have eq: "jpItems [JObject inp, JString keyName, JString valName] =
      Return (Inr (JArray
        (map (\<lambda>k. JObject (if keyName = valName then [(valName, the (map_of inp k))]
                             else [(keyName, JString k), (valName, the (map_of inp k))]))
           (sorted_list_of_set (dom (map_of inp))))))" if "distinct (map fst inp)" for inp
  proof -
    have fin: "finite (dom (map_of inp))" by (rule finite_dom_map_of)
    have "map (\<lambda>key. itemObject keyName valName (JString key) (lookup inp key))
            (sorted_list_of_set (dom (map_of inp)))
        = map (\<lambda>k. JObject (if keyName = valName then [(valName, the (map_of inp k))]
                             else [(keyName, JString k), (valName, the (map_of inp k))]))
            (sorted_list_of_set (dom (map_of inp)))"
    proof (rule map_cong [OF refl])
      fix k assume "k \<in> set (sorted_list_of_set (dom (map_of inp)))"
      with fin have "k \<in> dom (map_of inp)" by simp
      then show "itemObject keyName valName (JString k) (lookup inp k)
          = JObject (if keyName = valName then [(valName, the (map_of inp k))]
                     else [(keyName, JString k), (valName, the (map_of inp k))])"
        by (auto simp: itemObject_def lookup_def)
    qed
    with that show ?thesis by (simp add: jpItems_def sort_keys)
  qed
  show ?thesis using eq [OF assms] eq [of input'] by simp
qed

text \<open>
  The witness is the example of the specification, with the map iterated in the
  order \<open>b\<close>, \<open>a\<close> and in the order \<open>a\<close>, \<open>b\<close>.
\<close>

theorem C8_items_sorted_deterministic_witness:
  "jpItems [JObject [(''b'', JNumber (Fin 2)), (''a'', JNumber (Fin 1))], JString ''key'',
            JString ''value''] =
     Return (Inr (JArray [JObject [(''key'', JString ''a''), (''value'', JNumber (Fin 1))],
                          JObject [(''key'', JString ''b''), (''value'', JNumber (Fin 2))]]))
   \<and> jpItems [JObject [(''a'', JNumber (Fin 1)), (''b'', JNumber (Fin 2))], JString ''key'',
              JString ''value''] =
     jpItems [JObject [(''b'', JNumber (Fin 2)), (''a'', JNumber (Fin 1))], JString ''key'',
              JString ''value'']"
proof -
  have "sorted_list_of_set (set [''b'', ''a'']) = [''a'', ''b'']"
    unfolding sorted_list_of_set_sort_remdups by simp
  then have s: "sorted_list_of_set {''b'', ''a''} = [''a'', ''b'']"
    by simp
  have m: "dom (map_of [(''b'', JNumber (Fin 2)), (''a'', JNumber (Fin 1))]) = {''b'', ''a''}"
    by auto
  have e: "map_of [(''a'', JNumber (Fin 1)), (''b'', JNumber (Fin 2))] =
      map_of [(''b'', JNumber (Fin 2)), (''a'', JNumber (Fin 1))]"
    by (rule ext) simp
  have v: "the (map_of [(''b'', JNumber (Fin 2)), (''a'', JNumber (Fin 1))] ''a'') = JNumber (Fin 1)"
    "the (map_of [(''b'', JNumber (Fin 2)), (''a'', JNumber (Fin 1))] ''b'') = JNumber (Fin 2)"
    by simp_all
  show ?thesis
    using e C8_items_sorted_deterministic
      [where input = "[(''b'', JNumber (Fin 2)), (''a'', JNumber (Fin 1))]"
         and input' = "[(''a'', JNumber (Fin 1)), (''b'', JNumber (Fin 2))]"
         and keyName = "''key''" and valName = "''value''"]
    by (simp add: s m v del: map_of.simps)
qed


subsection \<open>Representable integers\<close>

text \<open>
  An integer is a multiple of its odd part by a power of two, so the odd part is
  below a bound exactly when the integer is a power of two times something below the
  bound. The truncated remainder of two such integers is again one: it is a multiple
  of the smaller of the two powers, below the divisor and at most the dividend.
\<close>

lemma oddPart_double: "oddPart (2 * x) = oddPart x"
  by (subst oddPart.simps) (simp add: oddPart.simps [of 0])

lemma oddPart_mult_pow: "oddPart (m * 2 ^ k) = oddPart m"
proof (induction k)
  case 0
  show ?case by simp
next
  case (Suc k)
  have "m * 2 ^ Suc k = 2 * (m * 2 ^ k)" by simp
  then show ?case using Suc by (simp only: oddPart_double)
qed

lemma oddPart_decomp: "\<exists>k. i = oddPart i * 2 ^ k"
proof (induction i rule: oddPart.induct)
  case (1 i)
  show ?case
  proof (cases "i = 0")
    case True
    then show ?thesis by (simp add: oddPart.simps)
  next
    case nz: False
    show ?thesis
    proof (cases "even i")
      case True
      with nz 1 obtain k where k: "i div 2 = oddPart (i div 2) * 2 ^ k" by blast
      from True nz have o: "oddPart i = oddPart (i div 2)" by (subst oddPart.simps) simp
      from True have "i = 2 * (i div 2)" by simp
      also have "\<dots> = oddPart i * 2 ^ Suc k" using k o by simp
      finally show ?thesis by blast
    next
      case False
      with nz have "oddPart i = i" by (subst oddPart.simps) simp
      then have "i = oddPart i * 2 ^ 0" by simp
      then show ?thesis by blast
    qed
  qed
qed

lemma abs_oddPart_le: "\<bar>oddPart m\<bar> \<le> \<bar>m\<bar>"
proof -
  obtain k where "m = oddPart m * 2 ^ k" using oddPart_decomp by blast
  then have "\<bar>m\<bar> = \<bar>oddPart m * 2 ^ k\<bar>" by simp
  then have "\<bar>m\<bar> = \<bar>oddPart m\<bar> * 2 ^ k" by (simp add: abs_mult)
  moreover have "\<bar>oddPart m\<bar> * 1 \<le> \<bar>oddPart m\<bar> * 2 ^ k"
    by (intro mult_left_mono) simp_all
  ultimately show ?thesis by simp
qed

lemma oddPart_bound_iff:
  "\<bar>oddPart i\<bar> < B \<longleftrightarrow> (\<exists>m k. i = m * 2 ^ k \<and> \<bar>m\<bar> < B)"
proof
  assume "\<bar>oddPart i\<bar> < B"
  then show "\<exists>m k. i = m * 2 ^ k \<and> \<bar>m\<bar> < B" using oddPart_decomp [of i] by blast
next
  assume "\<exists>m k. i = m * 2 ^ k \<and> \<bar>m\<bar> < B"
  then obtain m k where "i = m * 2 ^ k" "\<bar>m\<bar> < B" by blast
  then show "\<bar>oddPart i\<bar> < B" using abs_oddPart_le [of m] by (simp add: oddPart_mult_pow)
qed

lemma abs_smod_less:
  fixes i j :: int
  assumes "j \<noteq> 0"
  shows "\<bar>i smod j\<bar> < \<bar>j\<bar>"
proof -
  have "\<bar>i smod j\<bar> = \<bar>i\<bar> mod \<bar>j\<bar>"
    using assms by (cases "i = 0") (simp_all add: smod_int_alt_def abs_mult abs_sgn_eq)
  also have "\<dots> < \<bar>j\<bar>" using assms by simp
  finally show ?thesis .
qed

lemma abs_smod_le:
  fixes i j :: int
  shows "\<bar>i smod j\<bar> \<le> \<bar>i\<bar>"
proof -
  have "\<bar>i smod j\<bar> = \<bar>i\<bar> mod \<bar>j\<bar>"
    by (cases "i = 0"; cases "j = 0") (simp_all add: smod_int_alt_def abs_mult abs_sgn_eq)
  also have "\<dots> \<le> \<bar>i\<bar>" by (rule zmod_le_nonneg_dividend) simp
  finally show ?thesis .
qed

lemma smod_oddPart_bound:
  fixes i j :: int
  assumes "\<bar>oddPart i\<bar> < B" and "\<bar>oddPart j\<bar> < B" and "j \<noteq> 0"
  shows "\<bar>oddPart (i smod j)\<bar> < B"
proof -
  obtain k where i: "i = oddPart i * 2 ^ k" using oddPart_decomp by blast
  obtain l where j: "j = oddPart j * 2 ^ l" using oddPart_decomp by blast
  define n where "n = min k l"
  let ?r = "i smod j"
  have di: "2 ^ n dvd i"
    by (subst i) (simp add: n_def le_imp_power_dvd)
  have dj: "2 ^ n dvd j"
    by (subst j) (simp add: n_def le_imp_power_dvd)
  have "?r = i - i sdiv j * j" by (simp add: minus_sdiv_mult_eq_smod)
  with di dj have "2 ^ n dvd ?r" by simp
  then obtain m where m: "?r = m * 2 ^ n" by (metis dvd_def mult.commute)
  have "\<bar>m\<bar> < B"
  proof (cases "k \<le> l")
    case True
    then have n: "n = k" by (simp add: n_def)
    have "\<bar>m\<bar> * 2 ^ k = \<bar>?r\<bar>" by (simp add: m n abs_mult)
    also have "\<dots> \<le> \<bar>i\<bar>" by (rule abs_smod_le)
    also have "\<dots> = \<bar>oddPart i\<bar> * 2 ^ k" by (subst i) (simp add: abs_mult)
    finally have "\<bar>m\<bar> \<le> \<bar>oddPart i\<bar>" by simp
    with assms(1) show ?thesis by simp
  next
    case False
    then have n: "n = l" by (simp add: n_def)
    have "\<bar>m\<bar> * 2 ^ l = \<bar>?r\<bar>" by (simp add: m n abs_mult)
    also have "\<dots> < \<bar>j\<bar>" by (rule abs_smod_less [OF assms(3)])
    also have "\<dots> = \<bar>oddPart j\<bar> * 2 ^ l" by (subst j) (simp add: abs_mult)
    finally have "\<bar>m\<bar> < \<bar>oddPart j\<bar>" by simp
    with assms(2) show ?thesis by simp
  qed
  with m show ?thesis by (auto simp: oddPart_bound_iff)
qed

subsection \<open>Conversions between float64 and int64\<close>

lemma floor_numeral_quotient [simp]:
  "\<lfloor>numeral a / numeral b :: rat\<rfloor> = numeral a div numeral b"
  using floor_divide_of_int_eq [of "numeral a" "numeral b", where ?'a = rat] by simp

lemma sint_int64_of_int:
  assumes "int64Range k"
  shows "sint (word_of_int k :: int64) = k"
  using assms by (simp add: int64Range_def sint_sbintrunc' signed_take_bit_int_eq_self)

lemma abs_trunc_le: "\<bar>of_int (trunc r) :: rat\<bar> \<le> \<bar>r\<bar>"
  by (simp add: trunc_def)

lemma is_int_of_int [simp]: "is_int (of_int i)"
  by (simp add: is_int_def)

lemma trunc_of_int [simp]: "trunc (of_int i) = i"
  by (simp add: trunc_def)

lemma exactInt_small:
  assumes "\<bar>i\<bar> < 2 ^ 53"
  shows "exactInt i"
proof -
  have "\<bar>oddPart i\<bar> < 2 ^ 53" using abs_oddPart_le [of i] assms by linarith
  moreover have "(2::int) ^ 53 \<le> 2 ^ 1024" by (rule power_increasing) simp_all
  ultimately show ?thesis using assms unfolding exactInt_def by linarith
qed

lemma exactInt_smod:
  assumes "exactInt i" and "exactInt j" and "j \<noteq> 0"
  shows "exactInt (i smod j)"
  using assms smod_oddPart_bound [of i "2 ^ 53" j] abs_smod_le [of i j]
  unfolding exactInt_def by linarith

lemma int64Range_smod:
  assumes "int64Range i"
  shows "int64Range (i smod j)"
proof -
  have nn: "0 \<le> \<bar>i\<bar> mod \<bar>j\<bar>" by (cases "j = 0") simp_all
  have le: "\<bar>i smod j\<bar> \<le> \<bar>i\<bar>" by (rule abs_smod_le)
  show ?thesis
  proof (cases "0 \<le> i")
    case True
    then have "0 \<le> i smod j"
      unfolding smod_int_alt_def using nn by (intro mult_nonneg_nonneg) (simp_all add: sgn_if)
    with le assms True show ?thesis unfolding int64Range_def by linarith
  next
    case False
    then have "i smod j = - (\<bar>i\<bar> mod \<bar>j\<bar>)" by (simp add: smod_int_alt_def)
    with nn have "i smod j \<le> 0" by simp
    with le assms False show ?thesis unfolding int64Range_def by linarith
  qed
qed

text \<open>
  The test \<^verbatim>\<open>f != float64(int64(f))\<close>: it lets a representable integer of the int64
  range pass, with the integer as the converted value, and rejects every float64 with
  a fractional part.
\<close>

lemma convert_int:
  assumes "int64Range i"
  shows "int64_of_float L (Fin (of_int i)) = word_of_int i"
    and "exactInt i \<Longrightarrow> float_of_int64 L (word_of_int i) = Fin (of_int i)"
proof -
  show "int64_of_float L (Fin (of_int i)) = word_of_int i"
    using assms by (simp add: int64_of_float_def)
  show "float_of_int64 L (word_of_int i) = Fin (of_int i)" if "exactInt i"
    using that by (simp add: float_of_int64_def fround_def sint_int64_of_int [OF assms])
qed

lemma integral_passes:
  assumes "int64Range i" and "exactInt i"
  shows "feq (Fin (of_int i)) (float_of_int64 L (int64_of_float L (Fin (of_int i))))"
  using convert_int [OF assms(1), of L] assms(2) by simp

lemma fractional_fails:
  assumes "fractional x" and "float64Value x"
  shows "\<not> feq x (float_of_int64 L (int64_of_float L x))"
proof -
  from assms obtain r where x: "x = Fin r" and ni: "\<not> is_int r" and b: "\<bar>r\<bar> < 2 ^ 52"
    by (auto simp: fractional_def float64Value_def split: float64.splits)
  let ?t = "trunc r"
  have tb: "\<bar>of_int ?t :: rat\<bar> < 2 ^ 52" using abs_trunc_le [of r] b by linarith
  then have ti: "\<bar>?t\<bar> < 2 ^ 52"
    by (metis of_int_abs of_int_less_iff of_int_numeral of_int_power)
  then have r: "int64Range ?t"
    unfolding int64Range_def by simp linarith
  from ti have e: "exactInt ?t"
    by (intro exactInt_small) simp
  have "int64_of_float L x = word_of_int ?t"
    using r by (simp add: int64_of_float_def x)
  moreover have "float_of_int64 L (word_of_int ?t) = Fin (of_int ?t)"
    by (rule convert_int(2) [OF r e])
  moreover have "of_int ?t \<noteq> r" using ni by (metis is_int_of_int)
  ultimately show ?thesis by (simp add: x)
qed

text \<open>
  Zero is whole and converts to the int64 zero; a whole value converts to zero only
  when it is zero. A test \<^verbatim>\<open>f == 0\<close> holds of the float64 zero only.
\<close>

lemma feq_zero: "feq x (Fin 0) \<longleftrightarrow> x = Fin 0"
  by (cases x) simp_all

lemma convert_zero: "int64_of_float L (Fin 0) = 0" "float_of_int64 L 0 = Fin 0"
proof -
  have z: "int64Range 0" "exactInt 0"
    by (simp_all add: int64Range_def exactInt_def oddPart.simps)
  show "int64_of_float L (Fin 0) = 0" "float_of_int64 L 0 = Fin 0"
    using convert_int [OF z(1), of L] z(2) by simp_all
qed

lemma whole_zero: "whole L (Fin 0)"
  by (simp add: whole_def convert_zero)

lemma whole_converts_to_zero:
  assumes "whole L f"
  shows "int64_of_float L f = 0 \<longleftrightarrow> f = Fin 0"
proof
  assume "int64_of_float L f = 0"
  with assms have "feq f (Fin 0)" by (simp add: whole_def convert_zero)
  then show "f = Fin 0" by (simp add: feq_zero)
next
  assume "f = Fin 0"
  then show "int64_of_float L f = 0" by (simp add: convert_zero)
qed

lemma whole_integral:
  assumes "int64Range i" and "exactInt i"
  shows "whole L (Fin (of_int i))"
  unfolding whole_def using assms by (rule integral_passes)

lemma not_whole_fractional:
  assumes "fractional x" and "float64Value x"
  shows "\<not> whole L x"
  unfolding whole_def using assms by (rule fractional_fails)

subsection \<open>The example library\<close>

text \<open>
  Rounding leaves an integer below \<open>2 ^ 53\<close> as it is and at most doubles any other.
\<close>

lemma excess_small: "n < 2 ^ 53 \<Longrightarrow> excess n = 0"
  by (subst excess.simps) simp

lemma roundNat_small: "n < 2 ^ 53 \<Longrightarrow> roundNat n = n"
  by (simp add: roundNat_def excess_small)

lemma pow_excess_le: "0 < n \<Longrightarrow> 2 ^ excess n \<le> n"
proof (induction n rule: excess.induct)
  case (1 n)
  show ?case
  proof (cases "n < 2 ^ 53")
    case True
    with 1(2) show ?thesis by (simp add: excess_small)
  next
    case False
    then have "0 < n div 2" by simp
    with 1(1) False have "2 ^ excess (n div 2) \<le> n div 2" by simp
    then have "2 * 2 ^ excess (n div 2) \<le> 2 * (n div 2)" by simp
    also have "\<dots> \<le> n" by simp
    finally show ?thesis using False by (subst excess.simps) simp
  qed
qed

lemma roundNat_le: "roundNat n \<le> 2 * n"
proof (cases "n = 0")
  case True
  then show ?thesis by (simp add: roundNat_small)
next
  case False
  define p where "p = (2::nat) ^ excess n"
  define m where "m = n div p"
  have p: "p \<le> n" unfolding p_def using False by (simp add: pow_excess_le)
  have d: "m * p \<le> n" unfolding m_def by simp
  have "(m + 1) * p = m * p + p" by (simp add: algebra_simps)
  with p d have up: "(m + 1) * p \<le> 2 * n" by linarith
  from d have down: "m * p \<le> 2 * n" by linarith
  show ?thesis
    unfolding roundNat_def p_def [symmetric] m_def [symmetric] using up down by presburger
qed

lemma abs_roundInt_le: "\<bar>roundInt i\<bar> \<le> 2 * \<bar>i\<bar>"
proof (cases "i < 0")
  case True
  have "int (roundNat (nat (- i))) \<le> int (2 * nat (- i))"
    using roundNat_le [of "nat (- i)"] by (simp only: of_nat_le_iff)
  with True show ?thesis by (simp add: roundInt_def)
next
  case False
  have "int (roundNat (nat i)) \<le> int (2 * nat i)"
    using roundNat_le [of "nat i"] by (simp only: of_nat_le_iff)
  with False show ?thesis by (simp add: roundInt_def)
qed

lemma roundInt_small: "\<bar>i\<bar> < 2 ^ 53 \<Longrightarrow> roundInt i = i"
proof -
  assume a: "\<bar>i\<bar> < 2 ^ 53"
  show ?thesis
  proof (cases "i < 0")
    case True
    with a have "nat (- i) < 2 ^ 53" by (simp add: nat_less_iff)
    with True show ?thesis by (simp add: roundInt_def roundNat_small)
  next
    case False
    with a have "nat i < 2 ^ 53" by (simp add: nat_less_iff)
    with False show ?thesis by (simp add: roundInt_def roundNat_small)
  qed
qed

lemma roundExample_simps:
  "\<bar>i\<bar> < 2 ^ 53 \<Longrightarrow> roundExample (of_int i) = Fin (of_int i)"
  "\<not> is_int r \<Longrightarrow> roundExample r = Fin r"
  by (simp_all add: roundExample_def roundInt_small)

lemma roundExample_numeral [simp]:
  "numeral k < (2::int) ^ 53 \<Longrightarrow> roundExample (numeral k) = Fin (numeral k)"
  "roundExample 0 = Fin 0"
  "roundExample 1 = Fin 1"
  using roundExample_simps(1) [of "numeral k"] roundExample_simps(1) [of 0]
    roundExample_simps(1) [of 1]
  by simp_all

lemma exampleLib_simps:
  "round64 exampleLib = roundExample"
  "convOutOfRange exampleLib x = word_of_int (- (2 ^ 63))"
  "QuantityAdd exampleLib a b = a + b"
  "QuantitySub exampleLib a b = a - b"
  "AsDec exampleLib q = q"
  "Format exampleLib q = ()"
  "DecMul exampleLib a b = a * b"
  "DecScale exampleLib d = 0"
  "DecQuoRoundDown exampleLib a b scale = of_int (trunc (a / b))"
  "NewDecimalQuantity exampleLib d f = d"
  "NewQuantity exampleLib i f = of_int (sint i)"
  "AsApproximateFloat64 exampleLib = roundExample"
  "ToDec exampleLib q = q"
  by (simp_all add: exampleLib_def)

text \<open>
  The integer \<open>2 ^ 53 + 1\<close> is not a float64: it is rounded to \<open>2 ^ 53\<close>.
\<close>

lemma roundExample_odd: "roundExample 9007199254740993 = Fin 9007199254740992"
proof -
  have e: "excess 9007199254740993 = 1"
    by (subst excess.simps, subst excess.simps) simp
  have "roundNat 9007199254740993 = 9007199254740992"
    by (simp add: roundNat_def e)
  then have "roundInt 9007199254740993 = 9007199254740992"
    by (simp add: roundInt_def)
  then show ?thesis by (simp add: roundExample_def is_int_def)
qed

text \<open>
  The float64 of an int64 is at most \<open>2 ^ 64\<close> in magnitude (in fact at most
  \<open>2 ^ 63\<close>), so \<open>2 ^ 65\<close> is not whole, whatever the conversion of a float64 out of
  the range of int64 gives.
\<close>

lemma float_of_int64_example_bound:
  "\<exists>j. float_of_int64 (exampleLib\<lparr>convOutOfRange := c\<rparr>) w = Fin (of_int j) \<and> \<bar>j\<bar> \<le> 2 ^ 64"
proof -
  let ?i = "sint w"
  have "- (2 ^ 63) \<le> ?i" "?i < 2 ^ 63"
    using sint_ge [of w] sint_lt [of w] by simp_all
  then have b: "\<bar>?i\<bar> \<le> 2 ^ 63" by linarith
  show ?thesis
  proof (cases "exactInt ?i")
    case True
    then have "float_of_int64 (exampleLib\<lparr>convOutOfRange := c\<rparr>) w = Fin (of_int ?i)"
      by (simp add: float_of_int64_def fround_def del: of_int_sint)
    with b show ?thesis by (intro exI [of _ ?i]) simp
  next
    case False
    then have "float_of_int64 (exampleLib\<lparr>convOutOfRange := c\<rparr>) w = Fin (of_int (roundInt ?i))"
      by (simp add: float_of_int64_def fround_def exampleLib_simps roundExample_def
          del: of_int_sint)
    moreover have "\<bar>roundInt ?i\<bar> \<le> 2 ^ 64"
      using abs_roundInt_le [of ?i] b by simp
    ultimately show ?thesis by blast
  qed
qed

lemma not_whole_example:
  "\<not> whole (exampleLib\<lparr>convOutOfRange := c\<rparr>) (Fin 36893488147419103232)"
proof -
  obtain j where j: "float_of_int64 (exampleLib\<lparr>convOutOfRange := c\<rparr>)
        (int64_of_float (exampleLib\<lparr>convOutOfRange := c\<rparr>) (Fin 36893488147419103232))
      = Fin (of_int j)" and b: "\<bar>j\<bar> \<le> 2 ^ 64"
    using float_of_int64_example_bound by blast
  from b have "j \<noteq> 36893488147419103232" by auto
  then have "(of_int j :: rat) \<noteq> 36893488147419103232"
    by (metis of_int_eq_iff of_int_numeral)
  with j show ?thesis by (simp add: whole_def)
qed

subsection \<open>The tests of modulo\<close>

text \<open>
  Modulo on two scalars and on two quantities, by the outcome of its three tests: both
  values whole, and the divisor not zero.
\<close>

lemma Scalar_Modulo_whole:
  "Modulo L (Scalar x) (Scalar y) =
     (if whole L x \<and> whole L y
      then (if y = Fin 0 then Inl (formatError zeroDivisionError modulo_fn [])
            else Inr (ResultFloat
              (float_of_int64 L (rem64 (int64_of_float L x) (int64_of_float L y)))))
      else Inl (formatError nonIntModuloError modulo_fn []))"
  using whole_converts_to_zero [of L y]
  by (simp add: Modulo_def Scalar_Modulo_def whole_def [symmetric])

lemma Quantity_Modulo_whole:
  "Modulo L (Quantity p) (Quantity q) =
     (if whole L (AsApproximateFloat64 L (ToDec L p)) \<and> whole L (AsApproximateFloat64 L (ToDec L q))
      then (if AsApproximateFloat64 L (ToDec L q) = Fin 0
            then Inl (formatError zeroDivisionError modulo_fn [])
            else Inr (ResultQuantity (NewQuantity L
              (rem64 (int64_of_float L (AsApproximateFloat64 L (ToDec L p)))
                 (int64_of_float L (AsApproximateFloat64 L (ToDec L q))))
              (Format L p))))
      else Inl (formatError nonIntModuloError modulo_fn []))"
  using whole_converts_to_zero [of L "AsApproximateFloat64 L (ToDec L q)"]
  by (simp add: Modulo_def Quantity_Modulo_def whole_def [symmetric])

subsection \<open>The legality of operand pairs\<close>

lemmas operand_defs =
  Add_def Subtract_def Multiply_def Divide_def Modulo_def
  Quantity_Add_def Duration_Add_def Scalar_Add_def
  Quantity_Subtract_def Duration_Subtract_def Scalar_Subtract_def
  Quantity_Multiply_def Duration_Multiply_def Scalar_Multiply_def
  Quantity_Divide_def Duration_Divide_def Scalar_Divide_def
  Quantity_Modulo_def Duration_Modulo_def Scalar_Modulo_def

text \<open>
  Claim C3, as stated: an operation returns a value of the listed tag for a pair that
  the table lists and fails with a type mismatch for any other pair. Against the
  table of the specification:

  \<^item> a duration divided by a scalar and a quantity divided by a scalar are not listed,
    and the code returns a duration (four seconds by two is two seconds) and a
    quantity (four by two is two);

  \<^item> a scalar divided by a scalar is listed, and the code fails when the divisor is
    zero;

  \<^item> a scalar modulo a scalar is listed, and the code fails when an operand has a
    fractional part (7.5 modulo 2);

  \<^item> a quantity multiplied by a scalar is listed, and the code fails when the printed
    scalar is not a quantity (the scalar NaN).
\<close>

theorem C3_legality_counterexample:
  "specTable OpDivide (tagOf (Duration 4000000000 :: rat Operand)) (tagOf (Scalar (Fin 2) :: rat Operand)) = None
   \<and> applyOp exampleLib OpDivide (Duration 4000000000) (Scalar (Fin 2)) = Inr (ResultDuration 2000000000)
   \<and> specTable OpDivide (tagOf (Quantity 4 :: rat Operand)) (tagOf (Scalar (Fin 2) :: rat Operand)) = None
   \<and> applyOp exampleLib OpDivide (Quantity 4) (Scalar (Fin 2)) = Inr (ResultQuantity 2)
   \<and> specTable OpDivide (tagOf (Scalar (Fin 1) :: rat Operand)) (tagOf (Scalar (Fin 0) :: rat Operand)) = Some TScalar
   \<and> applyOp exampleLib OpDivide (Scalar (Fin 1)) (Scalar (Fin 0)) =
       Inl (formatError zeroDivisionError divide_fn [])
   \<and> specTable OpModulo (tagOf (Scalar (Fin (15 / 2)) :: rat Operand)) (tagOf (Scalar (Fin 2) :: rat Operand)) = Some TScalar
   \<and> applyOp exampleLib OpModulo (Scalar (Fin (15 / 2))) (Scalar (Fin 2)) =
       Inl (formatError nonIntModuloError modulo_fn [])
   \<and> specTable OpMultiply (tagOf (Quantity 4 :: rat Operand)) (tagOf (Scalar NaN :: rat Operand)) = Some TQuantity
   \<and> applyOp exampleLib OpMultiply (Quantity 4) (Scalar NaN) =
       Inl (LibraryError ''quantities must match the regular expression'')"
proof -
  have p: "ParseQuantity exampleLib (Sprintf_v exampleLib (Fin 2)) = Inr 2"
    "ParseQuantity exampleLib (Sprintf_v exampleLib NaN) =
       Inl ''quantities must match the regular expression''"
    by (simp_all add: exampleLib_def is_int_def itoa.simps less_eq_char_def)
  have d: "applyOp exampleLib OpDivide (Duration 4000000000) (Scalar (Fin 2)) =
      Inr (ResultDuration 2000000000)"
    by (simp add: operand_defs Seconds_def Second_def quo64_def rem64_def float_of_int64_def
      int64_of_float_def fround_def is_int_def trunc_def exampleLib_simps exactInt_def
      int64Range_def oddPart.simps)
  have q: "applyOp exampleLib OpDivide (Quantity 4) (Scalar (Fin 2)) = Inr (ResultQuantity 2)"
    by (simp add: operand_defs p exampleLib_simps trunc_def)
  have z: "applyOp exampleLib OpDivide (Scalar (Fin 1)) (Scalar (Fin 0)) =
       Inl (formatError zeroDivisionError divide_fn [])"
    by (simp add: operand_defs)
  have m: "applyOp exampleLib OpModulo (Scalar (Fin (15 / 2))) (Scalar (Fin 2)) =
       Inl (formatError nonIntModuloError modulo_fn [])"
    by (simp add: Modulo_def Scalar_Modulo_def float_of_int64_def int64_of_float_def fround_def
      is_int_def trunc_def exampleLib_simps exactInt_def int64Range_def oddPart.simps)
  have n: "applyOp exampleLib OpMultiply (Quantity 4) (Scalar NaN) =
       Inl (LibraryError ''quantities must match the regular expression'')"
    by (simp add: operand_defs p)
  show ?thesis using d q z m n by simp
qed

text \<open>
  Claim C3, amended. With the table extended by the two pairs of division that the
  code accepts (a quantity by a scalar gives a quantity, a duration by a scalar gives
  a duration): for a pair in the table the operation returns a value of the listed
  tag, except in the cases of \<open>legalException\<close>, where it fails with the error given
  there (a zero divisor of divide or modulo, an operand of modulo that is not whole, a
  scalar that does not parse as a quantity in a product or quotient with a quantity);
  so add and subtract always return a value on a listed pair. For a pair not in the
  table the operation fails with a type mismatch naming the operation, and no operand
  is converted.
\<close>

theorem C3_legality_table:
  "(case codeTable oper (tagOf a) (tagOf b) of
      Some t \<Rightarrow>
        (case legalException L oper a b of
           Some e \<Rightarrow> applyOp L oper a b = Inl e
         | None \<Rightarrow> (\<exists>r. applyOp L oper a b = Inr r \<and> resultTag r = t))
    | None \<Rightarrow> applyOp L oper a b = Inl (formatError typeMismatchError (opName oper) []))"
proof (cases oper)
  case OpAdd
  then show ?thesis by (cases a; cases b) (simp_all add: operand_defs)
next
  case OpSubtract
  then show ?thesis by (cases a; cases b) (simp_all add: operand_defs)
next
  case OpMultiply
  then show ?thesis
    by (cases a; cases b) (simp_all add: operand_defs parseFailure_def split: sum.splits)
next
  case OpDivide
  then show ?thesis
    by (cases a; cases b)
       (simp_all add: operand_defs parseFailure_def feq_zero split: sum.splits)
next
  case OpModulo
  have d: "Modulo L (Duration x) (Duration y) =
      (if y = 0 then Inl (formatError zeroDivisionError modulo_fn [])
       else Inr (ResultDuration (rem64 x y)))" for x y
    by (simp add: Modulo_def Duration_Modulo_def)
  have t: "Modulo L (Scalar x) (Quantity z) = Inl (formatError typeMismatchError modulo_fn [])"
    "Modulo L (Scalar x) (Duration w) = Inl (formatError typeMismatchError modulo_fn [])"
    "Modulo L (Quantity z) (Scalar x) = Inl (formatError typeMismatchError modulo_fn [])"
    "Modulo L (Quantity z) (Duration w) = Inl (formatError typeMismatchError modulo_fn [])"
    "Modulo L (Duration w) (Scalar x) = Inl (formatError typeMismatchError modulo_fn [])"
    "Modulo L (Duration w) (Quantity z) = Inl (formatError typeMismatchError modulo_fn [])"
    for x z w
    by (simp_all add: operand_defs)
  from OpModulo show ?thesis
    by (cases a; cases b) (simp_all add: Scalar_Modulo_whole Quantity_Modulo_whole d t moduloValue_def)
qed

text \<open>
  The witness runs the table in \<open>exampleLib\<close>: two by three is six and seven modulo two
  is one (listed pairs without an exception), a quantity modulo the quantity zero
  fails with the zero-division error (a listed pair with an exception), and a scalar
  added to a duration fails with the type mismatch (a pair that is not listed).
\<close>

theorem C3_legality_table_witness:
  "(\<exists>r. applyOp exampleLib OpMultiply (Scalar (Fin 2)) (Scalar (Fin 3)) = Inr r \<and> resultTag r = TScalar)
   \<and> (\<exists>r. applyOp exampleLib OpModulo (Scalar (Fin 7)) (Scalar (Fin 2)) = Inr r \<and> resultTag r = TScalar)
   \<and> applyOp exampleLib OpModulo (Quantity 7) (Quantity 0) =
       Inl (formatError zeroDivisionError modulo_fn [])
   \<and> applyOp exampleLib OpAdd (Scalar (Fin 1)) (Duration 5) =
       Inl (formatError typeMismatchError add [])"
proof -
  have w: "whole exampleLib (Fin 7)" "whole exampleLib (Fin 2)" "whole exampleLib (Fin 0)"
    using whole_integral [of 7 exampleLib] whole_integral [of 2 exampleLib]
      whole_integral [of 0 exampleLib]
    by (simp_all add: int64Range_def exactInt_def oddPart.simps)
  show ?thesis
    using
      C3_legality_table [where oper = OpMultiply and a = "Scalar (Fin 2)" and b = "Scalar (Fin 3)"
        and L = exampleLib]
      C3_legality_table [where oper = OpModulo and a = "Scalar (Fin 7)" and b = "Scalar (Fin 2)"
        and L = exampleLib]
      C3_legality_table [where oper = OpModulo and a = "Quantity 7" and b = "Quantity 0"
        and L = exampleLib]
      C3_legality_table [where oper = OpAdd and a = "Scalar (Fin 1)" and b = "Duration 5"
        and L = exampleLib]
    by (simp add: w moduloValue_def exampleLib_simps)
qed

subsection \<open>Division and modulo by zero\<close>

lemma Seconds_0: "Seconds L 0 = Fin 0"
  by (simp add: Seconds_def quo64_def rem64_def float_of_int64_def fround_def is_int_def
      exactInt_def oddPart.simps)

text \<open>
  Claim C4, as stated: modulo by zero fails with a zero-division error for every left
  operand. The modulo methods test both operands for a fractional part before they
  test the divisor: the scalar 7.5 modulo 0 fails with the non-integer error. And the
  test for a fractional part is a conversion to int64 and back: the scalar \<open>2 ^ 65\<close>,
  an integer out of the range of int64, modulo 0 fails with the non-integer error too,
  whatever the conversion of a float64 out of that range gives.
\<close>

theorem C4_modulo_zero_counterexample:
  "Modulo exampleLib (Scalar (Fin (15 / 2))) (Scalar (Fin 0)) =
     Inl (formatError nonIntModuloError modulo_fn [])
   \<and> (\<forall>c. Modulo (exampleLib\<lparr>convOutOfRange := c\<rparr>) (Scalar (Fin 36893488147419103232))
          (Scalar (Fin 0)) =
        Inl (formatError nonIntModuloError modulo_fn []))"
proof -
  have "Modulo exampleLib (Scalar (Fin (15 / 2))) (Scalar (Fin 0)) =
     Inl (formatError nonIntModuloError modulo_fn [])"
    by (simp add: Modulo_def Scalar_Modulo_def float_of_int64_def int64_of_float_def fround_def
      is_int_def trunc_def exampleLib_simps exactInt_def int64Range_def oddPart.simps)
  moreover have "Modulo (exampleLib\<lparr>convOutOfRange := c\<rparr>) (Scalar (Fin 36893488147419103232))
          (Scalar (Fin 0)) =
        Inl (formatError nonIntModuloError modulo_fn [])" for c
    using not_whole_example [of c] by (simp add: Modulo_def Scalar_Modulo_def whole_def)
  ultimately show ?thesis by simp
qed

text \<open>
  Claim C4, amended. Division by the zero of the same tag fails with a zero-division
  error for every scalar, every duration and every quantity, where the zero quantity
  is one whose approximate float64 value is zero. Modulo by the zero of the same tag
  fails with a zero-division error for every duration, for every scalar that is an
  integer of the int64 range, and for every quantity whose approximate float64 value
  (of its decimal form) is an integer of the int64 range; it fails with the
  non-integer error for a scalar with a fractional part and for a quantity whose
  approximate float64 value has a fractional part. For every other scalar or quantity
  it fails with one of the two errors.
\<close>

theorem C4_zero_division:
  "Divide L (Scalar x) (Scalar (Fin 0)) = Inl (formatError zeroDivisionError divide_fn [])
   \<and> Divide L (Duration d) (Duration 0) = Inl (formatError zeroDivisionError divide_fn [])
   \<and> (AsApproximateFloat64 L z = Fin 0 \<longrightarrow>
        Divide L (Quantity q) (Quantity z) = Inl (formatError zeroDivisionError divide_fn []))
   \<and> Modulo L (Duration d) (Duration 0) = Inl (formatError zeroDivisionError modulo_fn [])
   \<and> (int64Range i \<and> exactInt i \<longrightarrow>
        Modulo L (Scalar (Fin (of_int i))) (Scalar (Fin 0)) =
          Inl (formatError zeroDivisionError modulo_fn []))
   \<and> (fractional y \<and> float64Value y \<longrightarrow>
        Modulo L (Scalar y) (Scalar (Fin 0)) = Inl (formatError nonIntModuloError modulo_fn []))
   \<and> (AsApproximateFloat64 L (ToDec L z) = Fin 0
        \<and> AsApproximateFloat64 L (ToDec L q) = Fin (of_int i)
        \<and> int64Range i \<and> exactInt i \<longrightarrow>
        Modulo L (Quantity q) (Quantity z) = Inl (formatError zeroDivisionError modulo_fn []))
   \<and> (AsApproximateFloat64 L (ToDec L z) = Fin 0
        \<and> fractional (AsApproximateFloat64 L (ToDec L p))
        \<and> float64Value (AsApproximateFloat64 L (ToDec L p)) \<longrightarrow>
        Modulo L (Quantity p) (Quantity z) = Inl (formatError nonIntModuloError modulo_fn []))
   \<and> (Modulo L (Scalar x) (Scalar (Fin 0)) = Inl (formatError zeroDivisionError modulo_fn [])
        \<or> Modulo L (Scalar x) (Scalar (Fin 0)) = Inl (formatError nonIntModuloError modulo_fn []))
   \<and> (AsApproximateFloat64 L (ToDec L z) = Fin 0 \<longrightarrow>
        Modulo L (Quantity q) (Quantity z) = Inl (formatError zeroDivisionError modulo_fn [])
        \<or> Modulo L (Quantity q) (Quantity z) = Inl (formatError nonIntModuloError modulo_fn []))"
proof -
  have dv: "Divide L (Scalar x) (Scalar (Fin 0)) = Inl (formatError zeroDivisionError divide_fn [])"
    "Divide L (Duration d) (Duration 0) = Inl (formatError zeroDivisionError divide_fn [])"
    "AsApproximateFloat64 L z = Fin 0 \<longrightarrow>
        Divide L (Quantity q) (Quantity z) = Inl (formatError zeroDivisionError divide_fn [])"
    "Modulo L (Duration d) (Duration 0) = Inl (formatError zeroDivisionError modulo_fn [])"
    by (simp_all add: Divide_def Modulo_def Scalar_Divide_def Duration_Divide_def
        Quantity_Divide_def Duration_Modulo_def Seconds_0)
  have si: "int64Range i \<and> exactInt i \<longrightarrow>
        Modulo L (Scalar (Fin (of_int i))) (Scalar (Fin 0)) =
          Inl (formatError zeroDivisionError modulo_fn [])"
    using whole_integral [of i L] by (simp add: Scalar_Modulo_whole whole_zero)
  have sf: "fractional y \<and> float64Value y \<longrightarrow>
        Modulo L (Scalar y) (Scalar (Fin 0)) = Inl (formatError nonIntModuloError modulo_fn [])"
    using not_whole_fractional [of y L] by (simp add: Scalar_Modulo_whole)
  have qi: "AsApproximateFloat64 L (ToDec L z) = Fin 0
        \<and> AsApproximateFloat64 L (ToDec L q) = Fin (of_int i)
        \<and> int64Range i \<and> exactInt i \<longrightarrow>
        Modulo L (Quantity q) (Quantity z) = Inl (formatError zeroDivisionError modulo_fn [])"
    using whole_integral [of i L] by (simp add: Quantity_Modulo_whole whole_zero)
  have qf: "AsApproximateFloat64 L (ToDec L z) = Fin 0
        \<and> fractional (AsApproximateFloat64 L (ToDec L p))
        \<and> float64Value (AsApproximateFloat64 L (ToDec L p)) \<longrightarrow>
        Modulo L (Quantity p) (Quantity z) = Inl (formatError nonIntModuloError modulo_fn [])"
    using not_whole_fractional [of "AsApproximateFloat64 L (ToDec L p)" L]
    by (simp add: Quantity_Modulo_whole)
  have st: "Modulo L (Scalar x) (Scalar (Fin 0)) = Inl (formatError zeroDivisionError modulo_fn [])
        \<or> Modulo L (Scalar x) (Scalar (Fin 0)) = Inl (formatError nonIntModuloError modulo_fn [])"
    by (simp add: Scalar_Modulo_whole)
  have qt: "AsApproximateFloat64 L (ToDec L z) = Fin 0 \<longrightarrow>
        Modulo L (Quantity q) (Quantity z) = Inl (formatError zeroDivisionError modulo_fn [])
        \<or> Modulo L (Quantity q) (Quantity z) = Inl (formatError nonIntModuloError modulo_fn [])"
    by (simp add: Quantity_Modulo_whole)
  show ?thesis
    by (intro conjI; (rule dv si sf qi qf st qt))
qed

text \<open>
  The witness divides the quantity 7 by the quantity 0 and takes the scalars and the
  quantities 7 and 7.5 modulo zero, in \<open>exampleLib\<close>.
\<close>

theorem C4_zero_division_witness:
  "Divide exampleLib (Quantity 7) (Quantity 0) = Inl (formatError zeroDivisionError divide_fn [])
   \<and> Modulo exampleLib (Scalar (Fin 7)) (Scalar (Fin 0)) =
        Inl (formatError zeroDivisionError modulo_fn [])
   \<and> Modulo exampleLib (Scalar (Fin (15 / 2))) (Scalar (Fin 0)) =
        Inl (formatError nonIntModuloError modulo_fn [])
   \<and> Modulo exampleLib (Quantity 7) (Quantity 0) = Inl (formatError zeroDivisionError modulo_fn [])
   \<and> Modulo exampleLib (Quantity (15 / 2)) (Quantity 0) =
        Inl (formatError nonIntModuloError modulo_fn [])"
  using C4_zero_division [where L = exampleLib and z = 0 and q = 7 and i = 7
      and y = "Fin (15 / 2)" and p = "15 / 2"]
  by (simp add: exampleLib_simps roundExample_simps fractional_def float64Value_def is_int_def
      int64Range_def exactInt_def oddPart.simps)

subsection \<open>Modulo and integers\<close>

lemma word_of_int_nonzero:
  fixes j :: int
  assumes "int64Range j" and "j \<noteq> 0"
  shows "(word_of_int j :: int64) \<noteq> 0"
proof
  assume "(word_of_int j :: int64) = 0"
  then have "sint (word_of_int j :: int64) = 0" by simp
  then show False using sint_int64_of_int [OF assms(1)] assms(2) by simp
qed

text \<open>
  The three tests of the modulo methods on two converted operands: with a fractional
  operand one of the two integrality tests fails; with two representable integers of
  the int64 range and a divisor that is not zero all tests pass and the remainder is
  the truncated remainder of the integers.
\<close>

lemma modulo_tests_fractional:
  assumes "float64Value x" and "float64Value y" and "fractional x \<or> fractional y"
  shows "\<not> feq x (float_of_int64 L (int64_of_float L x))
       \<or> \<not> feq y (float_of_int64 L (int64_of_float L y))"
  using assms fractional_fails by blast

lemma modulo_tests_integral:
  assumes "int64Range i" and "exactInt i" and "int64Range j" and "exactInt j" and "j \<noteq> 0"
  shows "feq (Fin (of_int i)) (float_of_int64 L (int64_of_float L (Fin (of_int i))))"
    and "feq (Fin (of_int j)) (float_of_int64 L (int64_of_float L (Fin (of_int j))))"
    and "int64_of_float L (Fin (of_int j)) \<noteq> 0"
    and "rem64 (int64_of_float L (Fin (of_int i))) (int64_of_float L (Fin (of_int j)))
      = word_of_int (i smod j)"
    and "float_of_int64 L (word_of_int (i smod j)) = Fin (of_int (i smod j))"
proof -
  have si: "sint (word_of_int i :: int64) = i" and sj: "sint (word_of_int j :: int64) = j"
    using assms(1,3) by (simp_all add: sint_int64_of_int)
  have ci: "int64_of_float L (Fin (of_int i)) = word_of_int i"
    by (rule convert_int(1) [OF assms(1)])
  have cj: "int64_of_float L (Fin (of_int j)) = word_of_int j"
    by (rule convert_int(1) [OF assms(3)])
  show "feq (Fin (of_int i)) (float_of_int64 L (int64_of_float L (Fin (of_int i))))"
    by (rule integral_passes [OF assms(1,2)])
  show "feq (Fin (of_int j)) (float_of_int64 L (int64_of_float L (Fin (of_int j))))"
    by (rule integral_passes [OF assms(3,4)])
  show "int64_of_float L (Fin (of_int j)) \<noteq> 0"
    unfolding cj by (rule word_of_int_nonzero [OF assms(3,5)])
  show "rem64 (int64_of_float L (Fin (of_int i))) (int64_of_float L (Fin (of_int j)))
      = word_of_int (i smod j)"
    unfolding ci cj rem64_def si sj by (rule refl)
  show "float_of_int64 L (word_of_int (i smod j)) = Fin (of_int (i smod j))"
    by (rule convert_int(2) [OF int64Range_smod [OF assms(1)] exactInt_smod [OF assms(2,4,5)]])
qed

lemma Scalar_Modulo_fractional:
  assumes "float64Value x" and "float64Value y" and "fractional x \<or> fractional y"
  shows "Modulo L (Scalar x) (Scalar y) = Inl (formatError nonIntModuloError modulo_fn [])"
  using modulo_tests_fractional [OF assms, of L] by (auto simp: Modulo_def Scalar_Modulo_def)

lemma Scalar_Modulo_integral:
  assumes "int64Range i" and "exactInt i" and "int64Range j" and "exactInt j" and "j \<noteq> 0"
  shows "Modulo L (Scalar (Fin (of_int i))) (Scalar (Fin (of_int j))) =
    Inr (ResultFloat (Fin (of_int (i smod j))))"
  by (simp only: Modulo_def Scalar_Modulo_def Operand.case modulo_tests_integral [OF assms]
      not_True_eq_False if_False)

lemma Quantity_Modulo_fractional:
  assumes "float64Value (AsApproximateFloat64 L (ToDec L p))"
    and "float64Value (AsApproximateFloat64 L (ToDec L q))"
    and "fractional (AsApproximateFloat64 L (ToDec L p))
       \<or> fractional (AsApproximateFloat64 L (ToDec L q))"
  shows "Modulo L (Quantity p) (Quantity q) = Inl (formatError nonIntModuloError modulo_fn [])"
  using modulo_tests_fractional [OF assms, of L] by (auto simp: Modulo_def Quantity_Modulo_def)

lemma Quantity_Modulo_integral:
  assumes "AsApproximateFloat64 L (ToDec L p) = Fin (of_int i)"
    and "AsApproximateFloat64 L (ToDec L q) = Fin (of_int j)"
    and "int64Range i" and "exactInt i" and "int64Range j" and "exactInt j" and "j \<noteq> 0"
  shows "Modulo L (Quantity p) (Quantity q) =
    Inr (ResultQuantity (NewQuantity L (word_of_int (i smod j)) (Format L p)))"
  by (simp only: Modulo_def Quantity_Modulo_def Operand.case assms(1,2)
      modulo_tests_integral [OF assms(3-7)] not_True_eq_False if_False)
text \<open>
  Claim C5, as stated: modulo of two integral scalars or quantities returns the
  integer remainder. The scalar \<open>2 ^ 65\<close> is integral, and modulo 3 it fails with the
  non-integer error, whatever the conversion of a float64 out of the range of int64
  gives. The quantity \<open>2 ^ 53 + 1\<close> is integral and odd, and modulo 2 it gives 0: the
  quantity is taken at its approximate float64 value, which is \<open>2 ^ 53\<close>.
\<close>

theorem C5_modulo_integral_counterexample:
  "(\<forall>c. Modulo (exampleLib\<lparr>convOutOfRange := c\<rparr>) (Scalar (Fin 36893488147419103232))
          (Scalar (Fin 3)) =
        Inl (formatError nonIntModuloError modulo_fn []))
   \<and> Modulo exampleLib (Quantity 9007199254740993) (Quantity 2) = Inr (ResultQuantity 0)"
proof -
  have "Modulo (exampleLib\<lparr>convOutOfRange := c\<rparr>) (Scalar (Fin 36893488147419103232))
          (Scalar (Fin 3)) =
        Inl (formatError nonIntModuloError modulo_fn [])" for c
    using not_whole_example [of c] by (simp add: Modulo_def Scalar_Modulo_def whole_def)
  moreover have "Modulo exampleLib (Quantity 9007199254740993) (Quantity 2) =
      Inr (ResultQuantity 0)"
  proof -
    have r: "int64Range 9007199254740992" "int64Range 2"
      by (simp_all add: int64Range_def)
    have e: "exactInt 2" by (simp add: exactInt_def oddPart.simps)
    have "oddPart (1 * 2 ^ 53) = oddPart 1" by (rule oddPart_mult_pow)
    then have "oddPart 9007199254740992 = 1" by (simp add: oddPart.simps [of 1])
    then have e': "exactInt 9007199254740992" by (simp add: exactInt_def)
    have a: "AsApproximateFloat64 exampleLib (ToDec exampleLib 9007199254740993) =
        Fin (of_int 9007199254740992)"
      "AsApproximateFloat64 exampleLib (ToDec exampleLib 2) = Fin (of_int 2)"
      by (simp_all add: exampleLib_simps roundExample_odd)
    have "Modulo exampleLib (Quantity 9007199254740993) (Quantity 2) =
        Inr (ResultQuantity (NewQuantity exampleLib (word_of_int (9007199254740992 smod 2))
          (Format exampleLib 9007199254740993)))"
      by (rule Quantity_Modulo_integral [OF a r(1) e' r(2) e]) simp
    then show ?thesis by (simp add: exampleLib_simps smod_int_alt_def)
  qed
  ultimately show ?thesis by simp
qed


text \<open>
  Claim C5, amended. Modulo works on the float64 values of its operands: a scalar is
  its own value, and the value of a quantity is the approximate float64 value of its
  decimal form. If either value has a fractional part, modulo on two scalars or two
  quantities fails with the non-integer error. When both values are integers of the
  int64 range and the divisor is not zero (the zero divisor is the case of the
  zero-division error), it returns the remainder of the truncated division of the two
  values, as a scalar or as a quantity in the format of the left operand: 7.5 modulo 2
  fails and 7 modulo 2 is 1.
\<close>

theorem C5_modulo_integrality:
  "(float64Value x \<and> float64Value y \<and> (fractional x \<or> fractional y) \<longrightarrow>
      Modulo L (Scalar x) (Scalar y) = Inl (formatError nonIntModuloError modulo_fn []))
   \<and> (int64Range i \<and> exactInt i \<and> int64Range j \<and> exactInt j \<and> j \<noteq> 0 \<longrightarrow>
      Modulo L (Scalar (Fin (of_int i))) (Scalar (Fin (of_int j))) =
        Inr (ResultFloat (Fin (of_int (i smod j)))))
   \<and> (float64Value (AsApproximateFloat64 L (ToDec L p))
       \<and> float64Value (AsApproximateFloat64 L (ToDec L q))
       \<and> (fractional (AsApproximateFloat64 L (ToDec L p))
            \<or> fractional (AsApproximateFloat64 L (ToDec L q))) \<longrightarrow>
      Modulo L (Quantity p) (Quantity q) = Inl (formatError nonIntModuloError modulo_fn []))
   \<and> (AsApproximateFloat64 L (ToDec L p) = Fin (of_int i)
       \<and> AsApproximateFloat64 L (ToDec L q) = Fin (of_int j)
       \<and> int64Range i \<and> exactInt i \<and> int64Range j \<and> exactInt j \<and> j \<noteq> 0 \<longrightarrow>
      Modulo L (Quantity p) (Quantity q) =
        Inr (ResultQuantity (NewQuantity L (word_of_int (i smod j)) (Format L p))))"
  using Scalar_Modulo_fractional [of x y L] Scalar_Modulo_integral [of i j L]
    Quantity_Modulo_fractional [of L p q] Quantity_Modulo_integral [of L p i q j]
  by blast

theorem C5_modulo_integrality_witness:
  "Modulo exampleLib (Scalar (Fin (15 / 2))) (Scalar (Fin 2)) =
     Inl (formatError nonIntModuloError modulo_fn [])
   \<and> Modulo exampleLib (Scalar (Fin 7)) (Scalar (Fin 2)) = Inr (ResultFloat (Fin 1))
   \<and> Modulo exampleLib (Quantity (15 / 2)) (Quantity 2) =
     Inl (formatError nonIntModuloError modulo_fn [])
   \<and> Modulo exampleLib (Quantity 7) (Quantity 2) = Inr (ResultQuantity 1)"
  using C5_modulo_integrality [where L = exampleLib and x = "Fin (15 / 2)" and y = "Fin 2"
      and i = 7 and j = 2 and p = "15 / 2" and q = 2]
    C5_modulo_integrality [where L = exampleLib and x = "Fin (15 / 2)" and y = "Fin 2"
      and i = 7 and j = 2 and p = 7 and q = 2]
  by (simp add: exampleLib_simps roundExample_simps fractional_def float64Value_def is_int_def
      smod_int_alt_def int64Range_def exactInt_def oddPart.simps)



subsection \<open>The functions on raw arguments\<close>

text \<open>
  The five functions parse their two arguments and call the method of the first
  operand on the second; what holds of the methods holds of the functions once the
  arguments parse.
\<close>

lemma jp_parsed:
  "ParseArithemticOperands L arguments add = Inr (a, b) \<Longrightarrow>
     jpAdd L arguments = rendered L (applyOp L OpAdd a b)"
  "ParseArithemticOperands L arguments subtract = Inr (a, b) \<Longrightarrow>
     jpSubtract L arguments = rendered L (applyOp L OpSubtract a b)"
  "ParseArithemticOperands L arguments multiply = Inr (a, b) \<Longrightarrow>
     jpMultiply L arguments = rendered L (applyOp L OpMultiply a b)"
  "ParseArithemticOperands L arguments divide_fn = Inr (a, b) \<Longrightarrow>
     jpDivide L arguments = rendered L (applyOp L OpDivide a b)"
  "ParseArithemticOperands L arguments modulo_fn = Inr (a, b) \<Longrightarrow>
     jpModulo L arguments = rendered L (applyOp L OpModulo a b)"
  by (simp_all add: jpAdd_def jpAdd'_def jpSubtract_def jpMultiply_def jpDivide_def jpModulo_def)

lemma parse_examples:
  "ParseArithemticOperands exampleLib [JNumber (Fin (15 / 2)), JNumber (Fin 2)] modulo_fn =
     Inr (Scalar (Fin (15 / 2)), Scalar (Fin 2))"
  "ParseArithemticOperands exampleLib [JString ''4s'', JNumber (Fin 2)] divide_fn =
     Inr (Duration 4000000000, Scalar (Fin 2))"
  "ParseArithemticOperands exampleLib [JString ''7'', JString ''0''] modulo_fn =
     Inr (Quantity 7, Quantity 0)"
  "ParseArithemticOperands exampleLib [JBool True, JNumber (Fin 2)] add =
     Inl (formatError genericError add [ArgString ''invalid operands''])"
  by (simp_all add: ParseArithemticOperands_def parseOperand_def validateArg_def exampleLib_def
      less_eq_char_def)

end
